theory Spec2Isabelle
  imports Main "HOL-Library.Word" "HOL-Library.AList"
begin

unbundle bit_operations_syntax

section \<open>Bytes, strings and exceptions\<close>

text \<open>
  Python \<open>bytes\<close> are lists of 8-bit words. A Python \<open>str\<close> is a sequence of code
  points, so it is a list of naturals; \<open>string\<close> (\<open>char list\<close>) is kept for identifiers
  and keys that the program only compares and concatenates (room ids, device ids, object keys).
\<close>

type_synonym byte = "8 word"
type_synonym bytes = "byte list"
type_synonym py_str = "nat list"

text \<open>The exceptions the crypto kernel can meet, as values.\<close>

datatype crypto_error =
    ValueError            \<comment> \<open>bad key or nonce length\<close>
  | InvalidTag            \<comment> \<open>AEAD open failed\<close>
  | UnicodeEncodeError
  | UnicodeDecodeError

subsection \<open>UTF-8, as \<open>str.encode('utf-8')\<close> and \<open>bytes.decode('utf-8')\<close> (strict)\<close>

definition is_surrogate :: "nat \<Rightarrow> bool" where
  "is_surrogate cp = (0xD800 \<le> cp \<and> cp < 0xE000)"

definition byte_of :: "nat \<Rightarrow> byte" where
  "byte_of n = of_nat n"

definition encode_cp :: "nat \<Rightarrow> bytes option" where
  "encode_cp cp =
     (if cp < 0x80 then Some [byte_of cp]
      else if cp < 0x800 then
        Some [byte_of (0xC0 + cp div 64), byte_of (0x80 + cp mod 64)]
      else if is_surrogate cp then None
      else if cp < 0x10000 then
        Some [byte_of (0xE0 + cp div 4096), byte_of (0x80 + cp div 64 mod 64),
              byte_of (0x80 + cp mod 64)]
      else if cp < 0x110000 then
        Some [byte_of (0xF0 + cp div 262144), byte_of (0x80 + cp div 4096 mod 64),
              byte_of (0x80 + cp div 64 mod 64), byte_of (0x80 + cp mod 64)]
      else None)"

fun utf8_encode :: "py_str \<Rightarrow> bytes option" where
  "utf8_encode [] = Some []"
| "utf8_encode (cp # cps) =
     (case encode_cp cp of
        None \<Rightarrow> None
      | Some bs \<Rightarrow> (case utf8_encode cps of None \<Rightarrow> None | Some rest \<Rightarrow> Some (bs @ rest)))"

definition is_cont :: "byte \<Rightarrow> bool" where
  "is_cont b = (0x80 \<le> unat b \<and> unat b < 0xC0)"

text \<open>
  One scalar value from the front of the input: the code point and the number of bytes
  it took. Overlong forms, surrogates, values above U+10FFFF, stray continuation bytes
  and truncated sequences are rejected.
\<close>

definition decode_one :: "bytes \<Rightarrow> (nat \<times> nat) option" where
  "decode_one bs =
     (case bs of
        [] \<Rightarrow> None
      | b0 # r0 \<Rightarrow>
          let n0 = unat b0 in
          if n0 < 0x80 then Some (n0, 1)
          else if n0 < 0xC2 then None
          else if n0 < 0xE0 then
            (case r0 of
               b1 # _ \<Rightarrow>
                 if is_cont b1 then Some ((n0 - 0xC0) * 64 + (unat b1 - 0x80), 2) else None
             | _ \<Rightarrow> None)
          else if n0 < 0xF0 then
            (case r0 of
               b1 # b2 # _ \<Rightarrow>
                 let cp = (n0 - 0xE0) * 4096 + (unat b1 - 0x80) * 64 + (unat b2 - 0x80) in
                 if is_cont b1 \<and> is_cont b2 \<and> 0x800 \<le> cp \<and> \<not> is_surrogate cp
                 then Some (cp, 3) else None
             | _ \<Rightarrow> None)
          else if n0 < 0xF5 then
            (case r0 of
               b1 # b2 # b3 # _ \<Rightarrow>
                 let cp = (n0 - 0xF0) * 262144 + (unat b1 - 0x80) * 4096
                          + (unat b2 - 0x80) * 64 + (unat b3 - 0x80) in
                 if is_cont b1 \<and> is_cont b2 \<and> is_cont b3 \<and> 0x10000 \<le> cp \<and> cp < 0x110000
                 then Some (cp, 4) else None
             | _ \<Rightarrow> None)
          else None)"

lemma decode_one_consumes:
  "decode_one bs = Some (cp, k) \<Longrightarrow> 0 < k \<and> k \<le> length bs"
  by (auto simp: decode_one_def Let_def split: list.splits if_splits)

function utf8_decode :: "bytes \<Rightarrow> py_str option" where
  "utf8_decode bs =
     (if bs = [] then Some []
      else case decode_one bs of
             None \<Rightarrow> None
           | Some (cp, k) \<Rightarrow>
               (case utf8_decode (drop k bs) of None \<Rightarrow> None | Some cps \<Rightarrow> Some (cp # cps)))"
  by pat_completeness auto
termination
proof (relation "measure length")
  show "wf (measure length)" by simp
next
  fix bs :: bytes and x2 x y
  assume "bs \<noteq> []" "decode_one bs = Some x2" "(x, y) = x2"
  then have "decode_one bs = Some (x, y)" by simp
  from decode_one_consumes [OF this] \<open>bs \<noteq> []\<close>
  show "(drop y bs, bs) \<in> measure length" by simp
qed

declare utf8_decode.simps [simp del]

lemma unat_byte_of: "n < 256 \<Longrightarrow> unat (byte_of n) = n"
  by (simp add: byte_of_def unat_of_nat)

lemma dec1: "cp < 0x80 \<Longrightarrow> decode_one (byte_of cp # rest) = Some (cp, 1)"
  by (simp add: decode_one_def unat_byte_of)

lemma dec2:
  assumes "0x80 \<le> cp" "cp < 0x800"
  shows "decode_one (byte_of (0xC0 + cp div 64) # byte_of (0x80 + cp mod 64) # rest) = Some (cp, 2)"
proof -
  have a: "0xC0 + cp div 64 < 256" "0xC2 \<le> 0xC0 + cp div 64" "0xC0 + cp div 64 < 0xE0"
    using assms by auto
  have b: "0x80 + cp mod 64 < 256" "0x80 + cp mod 64 < 0xC0" by auto
  have c: "cp div 64 * 64 + cp mod 64 = cp" by simp
  show ?thesis
    using a b c by (simp add: decode_one_def unat_byte_of is_cont_def)
qed

lemma split3: "(cp::nat) div 4096 * 4096 + cp div 64 mod 64 * 64 + cp mod 64 = cp"
proof -
  have e: "cp div 4096 = cp div 64 div 64" by (simp add: div_mult2_eq)
  have h1: "cp div 64 * 64 + cp mod 64 = cp" by simp
  have h2: "cp div 64 div 64 * 64 + cp div 64 mod 64 = cp div 64" by simp
  show ?thesis unfolding e using h1 h2 by arith
qed

lemma split4:
  "(cp::nat) div 262144 * 262144 + cp div 4096 mod 64 * 4096 + cp div 64 mod 64 * 64 + cp mod 64 = cp"
proof -
  have e: "cp div 262144 = cp div 4096 div 64" by (simp add: div_mult2_eq)
  have h1: "cp div 4096 * 4096 + cp div 64 mod 64 * 64 + cp mod 64 = cp" by (rule split3)
  have h2: "cp div 4096 div 64 * 64 + cp div 4096 mod 64 = cp div 4096" by simp
  show ?thesis unfolding e using h1 h2 by arith
qed

lemma dec3:
  assumes "0x800 \<le> cp" "cp < 0x10000" "\<not> is_surrogate cp"
  shows "decode_one (byte_of (0xE0 + cp div 4096) # byte_of (0x80 + cp div 64 mod 64)
            # byte_of (0x80 + cp mod 64) # rest) = Some (cp, 3)"
proof -
  have a: "0xE0 + cp div 4096 < 256" "0xE0 + cp div 4096 < 0xF0"
    using assms by auto
  have b: "0x80 + cp mod 64 < 256" "0x80 + cp mod 64 < 0xC0"
          "0x80 + cp div 64 mod 64 < 256" "0x80 + cp div 64 mod 64 < 0xC0" by auto
  show ?thesis
    using a b split3 [of cp] assms by (simp add: decode_one_def unat_byte_of is_cont_def)
qed

lemma dec4:
  assumes "0x10000 \<le> cp" "cp < 0x110000"
  shows "decode_one (byte_of (0xF0 + cp div 262144) # byte_of (0x80 + cp div 4096 mod 64)
            # byte_of (0x80 + cp div 64 mod 64) # byte_of (0x80 + cp mod 64) # rest) = Some (cp, 4)"
proof -
  have a: "0xF0 + cp div 262144 < 256" "0xF0 + cp div 262144 < 0xF5"
    using assms by auto
  have b: "0x80 + cp mod 64 < 256" "0x80 + cp mod 64 < 0xC0"
          "0x80 + cp div 64 mod 64 < 256" "0x80 + cp div 64 mod 64 < 0xC0" 
          "0x80 + cp div 4096 mod 64 < 256" "0x80 + cp div 4096 mod 64 < 0xC0" by auto
  show ?thesis
    using a b split4 [of cp] assms by (simp add: decode_one_def unat_byte_of is_cont_def)
qed

lemma decode_one_encode_cp:
  assumes "encode_cp cp = Some bs"
  shows "decode_one (bs @ rest) = Some (cp, length bs)"
proof -
  consider "cp < 0x80" | "0x80 \<le> cp" "cp < 0x800" | "0x800 \<le> cp" "cp < 0x10000"
    | "0x10000 \<le> cp"
    by linarith
  then show ?thesis
  proof cases
    case 1
    with assms dec1 [of cp rest] show ?thesis by (auto simp: encode_cp_def)
  next
    case 2
    with assms dec2 [of cp rest] show ?thesis by (auto simp: encode_cp_def)
  next
    case 3
    with assms have "\<not> is_surrogate cp" by (simp add: encode_cp_def split: if_splits)
    with 3 assms dec3 [of cp rest] show ?thesis by (auto simp: encode_cp_def)
  next
    case 4
    then have ns: "\<not> is_surrogate cp" by (simp add: is_surrogate_def)
    with 4 assms have "cp < 0x110000" by (simp add: encode_cp_def split: if_splits)
    with 4 ns assms dec4 [of cp rest] show ?thesis by (auto simp: encode_cp_def)
  qed
qed

lemma encode_cp_nonempty: "encode_cp cp = Some bs \<Longrightarrow> bs \<noteq> []"
  by (auto simp: encode_cp_def split: if_splits)

lemma utf8_roundtrip:
  "utf8_encode s = Some bs \<Longrightarrow> utf8_decode bs = Some s"
proof (induction s arbitrary: bs)
  case Nil
  then show ?case by (simp add: utf8_decode.simps)
next
  case (Cons cp cps)
  then obtain b r where b: "encode_cp cp = Some b" and r: "utf8_encode cps = Some r"
    and bs: "bs = b @ r"
    by (auto split: option.splits)
  from decode_one_encode_cp [OF b, of r] Cons.IH [OF r] encode_cp_nonempty [OF b]
  show ?case
    by (subst utf8_decode.simps) (simp add: bs)
qed

text \<open>A string encodes exactly when it holds scalar values only.\<close>

definition scalar_value :: "nat \<Rightarrow> bool" where
  "scalar_value cp = (cp < 0x110000 \<and> \<not> is_surrogate cp)"

lemma encode_cp_total: "scalar_value cp \<Longrightarrow> \<exists>bs. encode_cp cp = Some bs"
  by (simp add: scalar_value_def encode_cp_def)

lemma utf8_encode_total: "list_all scalar_value s \<Longrightarrow> \<exists>bs. utf8_encode s = Some bs"
proof (induction s)
  case Nil
  then show ?case by simp
next
  case (Cons cp cps)
  then obtain b r where "encode_cp cp = Some b" "utf8_encode cps = Some r"
    using encode_cp_total [of cp] by auto
  then show ?case by simp
qed


section \<open>Crypto kernel (\<open>services/crypto.py\<close>)\<close>

subsection \<open>The AES-GCM primitive\<close>

text \<open>
  \<open>cryptography\<close>'s \<open>AESGCM\<close> is a library, not code of this repository: the cipher
  is a parameter. \<open>gcm_encrypt key nonce data\<close> is the sealed output (ciphertext followed
  by the tag), \<open>gcm_decrypt key nonce data\<close> is \<open>None\<close> where the library raises
  \<open>InvalidTag\<close>. Associated data is always \<open>None\<close> in this program and is left out.
\<close>

record aesgcm =
  gcm_encrypt :: "bytes \<Rightarrow> bytes \<Rightarrow> bytes \<Rightarrow> bytes"
  gcm_decrypt :: "bytes \<Rightarrow> bytes \<Rightarrow> bytes \<Rightarrow> bytes option"

text \<open>
  The contract of an AEAD that the round-trip claims rest on: sealing adds a 16-byte tag,
  and opening a sealed message under the same key and nonce gives the message back.
\<close>

definition aead_correct :: "aesgcm \<Rightarrow> bool" where
  "aead_correct A =
     (\<forall>k n p. length (gcm_encrypt A k n p) = length p + 16
              \<and> gcm_decrypt A k n (gcm_encrypt A k n p) = Some p)"

text \<open>The argument checks the library makes before it runs the cipher.\<close>

definition AESGCM :: "bytes \<Rightarrow> crypto_error + bytes" where
  "AESGCM key = (if length key \<in> {16, 24, 32} then Inr key else Inl ValueError)"

definition nonce_ok :: "bytes \<Rightarrow> bool" where
  "nonce_ok nonce = (8 \<le> length nonce \<and> length nonce \<le> 128)"

definition aesgcm_encrypt :: "aesgcm \<Rightarrow> bytes \<Rightarrow> bytes \<Rightarrow> bytes \<Rightarrow> crypto_error + bytes" where
  "aesgcm_encrypt A key nonce data =
     (if nonce_ok nonce then Inr (gcm_encrypt A key nonce data) else Inl ValueError)"

definition aesgcm_decrypt :: "aesgcm \<Rightarrow> bytes \<Rightarrow> bytes \<Rightarrow> bytes \<Rightarrow> crypto_error + bytes" where
  "aesgcm_decrypt A key nonce data =
     (if \<not> nonce_ok nonce then Inl ValueError
      else if length data < 16 then Inl InvalidTag
      else case gcm_decrypt A key nonce data of None \<Rightarrow> Inl InvalidTag | Some p \<Rightarrow> Inr p)"

subsection \<open>A small concrete AEAD, to run the definitions on\<close>

definition toy_pad :: "bytes \<Rightarrow> bytes \<Rightarrow> byte" where
  "toy_pad k n = sum_list (k @ n)"

definition toy_tag :: "bytes \<Rightarrow> bytes \<Rightarrow> bytes \<Rightarrow> bytes" where
  "toy_tag k n c = replicate 16 (sum_list (k @ n @ c))"

definition toy_encrypt :: "bytes \<Rightarrow> bytes \<Rightarrow> bytes \<Rightarrow> bytes" where
  "toy_encrypt k n p = (let c = map (\<lambda>b. b XOR toy_pad k n) p in c @ toy_tag k n c)"

definition toy_decrypt :: "bytes \<Rightarrow> bytes \<Rightarrow> bytes \<Rightarrow> bytes option" where
  "toy_decrypt k n d =
     (let c = take (length d - 16) d; t = drop (length d - 16) d
      in if length d < 16 \<or> t \<noteq> toy_tag k n c then None
         else Some (map (\<lambda>b. b XOR toy_pad k n) c))"

definition toy_aead :: aesgcm where
  "toy_aead = \<lparr>gcm_encrypt = toy_encrypt, gcm_decrypt = toy_decrypt\<rparr>"

subsection \<open>\<open>CryptoService\<close>\<close>

text \<open>
  \<open>secrets.token_bytes(12)\<close> is an input of the model (\<open>nonce\<close>); so is the master key,
  which \<open>_get_master_key\<close> only lets through when it is 32 bytes long.
  Python's \<open>x[:-16]\<close> is \<open>take (length x - 16) x\<close> and \<open>x[-16:]\<close> is
  \<open>drop (length x - 16) x\<close>, also when \<open>x\<close> is shorter than 16 bytes.
\<close>

definition encrypt_room_key :: "aesgcm \<Rightarrow> bytes \<Rightarrow> bytes \<Rightarrow> bytes \<Rightarrow> crypto_error + bytes" where
  "encrypt_room_key A master_key nonce room_key =
     (case AESGCM master_key of
        Inl e \<Rightarrow> Inl e
      | Inr k \<Rightarrow>
          (case aesgcm_encrypt A k nonce room_key of
             Inl e \<Rightarrow> Inl e
           | Inr ciphertext \<Rightarrow> Inr (nonce @ ciphertext)))"

definition decrypt_room_key :: "aesgcm \<Rightarrow> bytes \<Rightarrow> bytes \<Rightarrow> crypto_error + bytes" where
  "decrypt_room_key A master_key encrypted_room_key =
     (let nonce = take 12 encrypted_room_key;
          ciphertext = drop 12 encrypted_room_key
      in case AESGCM master_key of
           Inl e \<Rightarrow> Inl e
         | Inr k \<Rightarrow> aesgcm_decrypt A k nonce ciphertext)"

definition encrypt_message ::
  "aesgcm \<Rightarrow> bytes \<Rightarrow> bytes \<Rightarrow> py_str \<Rightarrow> crypto_error + (bytes \<times> bytes \<times> bytes)" where
  "encrypt_message A room_key nonce plaintext =
     (case AESGCM room_key of
        Inl e \<Rightarrow> Inl e
      | Inr k \<Rightarrow>
          (case utf8_encode plaintext of
             None \<Rightarrow> Inl UnicodeEncodeError
           | Some data \<Rightarrow>
               (case aesgcm_encrypt A k nonce data of
                  Inl e \<Rightarrow> Inl e
                | Inr ciphertext \<Rightarrow>
                    let actual_ciphertext = take (length ciphertext - 16) ciphertext;
                        tag = drop (length ciphertext - 16) ciphertext
                    in Inr (actual_ciphertext, nonce, tag))))"

definition decrypt_message ::
  "aesgcm \<Rightarrow> bytes \<Rightarrow> bytes \<Rightarrow> bytes \<Rightarrow> bytes \<Rightarrow> crypto_error + py_str" where
  "decrypt_message A room_key ciphertext nonce tag =
     (case AESGCM room_key of
        Inl e \<Rightarrow> Inl e
      | Inr k \<Rightarrow>
          let full_ciphertext = ciphertext @ tag
          in case aesgcm_decrypt A k nonce full_ciphertext of
               Inl e \<Rightarrow> Inl e
             | Inr plaintext_bytes \<Rightarrow>
                 (case utf8_decode plaintext_bytes of
                    None \<Rightarrow> Inl UnicodeDecodeError
                  | Some s \<Rightarrow> Inr s))"

lemma xor_pad_twice: "map ((\<lambda>b. b XOR x) \<circ> (\<lambda>b. b XOR x)) p = (p :: bytes)"
  by (induction p) (simp_all add: xor.assoc)

lemma toy_aead_correct: "aead_correct toy_aead"
  by (simp add: aead_correct_def toy_aead_def toy_encrypt_def toy_decrypt_def toy_tag_def
      Let_def xor_pad_twice)

section \<open>Persistence layer (\<open>models/\<close>)\<close>

text \<open>
  A table is the list of its rows in insertion order. \<open>Database.execute\<close> and
  \<open>execute_one\<close> open a connection, run one statement and commit; when the statement
  raises, the connection is rolled back and the exception propagates. Every call is
  therefore its own transaction. Whether a call raises (connection lost, constraint
  violated, malformed uuid) is not decided by the program: each model function takes it as
  the input \<open>raises\<close>, and a raising call leaves the database as it was.
  \<open>datetime.utcnow()\<close> is the input \<open>now\<close>, in seconds.
\<close>

type_synonym room_id = string
type_synonym timestamp = nat

datatype status = Pending | Active | Locked | Closed | Archived

datatype role = Host | Guest

record room =
  room_id :: room_id
  status :: status
  created_at :: timestamp
  accepted_at :: "timestamp option"
  expires_at :: "timestamp option"
  closed_at :: "timestamp option"
  archive_key :: "string option"

record participant =
  p_id :: nat
  p_room_id :: room_id
  p_role :: role
  p_device_id :: string
  p_display_name :: "string option"
  p_ip_address :: "string option"
  p_joined_at :: timestamp

record message =
  m_id :: nat
  m_room_id :: room_id
  m_participant_id :: nat
  m_created_at :: timestamp
  m_body_ct :: bytes
  m_nonce :: bytes
  m_tag :: bytes
  m_msg_type :: string
  m_ip_address :: "string option"

text \<open>
  The schema file is not among the sources. Taken from the statements the code runs:
  \<open>rooms.room_id\<close> is unique (the code retries on "duplicate key"), the columns an
  \<open>INSERT\<close> does not name are \<open>NULL\<close>, and the \<open>id\<close> columns that
  \<open>RETURNING id\<close> reads are drawn from a sequence.
\<close>

record db =
  rooms :: "room list"
  room_keys :: "(room_id \<times> bytes) list"
  participants :: "participant list"
  messages :: "message list"
  next_participant_id :: nat
  next_message_id :: nat

definition empty_db :: db where
  "empty_db = \<lparr>rooms = [], room_keys = [], participants = [], messages = [],
               next_participant_id = 1, next_message_id = 1\<rparr>"

text \<open>\<open>UPDATE rooms SET ... WHERE ...\<close> changes every row the condition selects.\<close>

definition sql_update :: "('r \<Rightarrow> bool) \<Rightarrow> ('r \<Rightarrow> 'r) \<Rightarrow> 'r list \<Rightarrow> 'r list" where
  "sql_update cond upd rows = map (\<lambda>r. if cond r then upd r else r) rows"

subsection \<open>\<open>Room\<close> (\<open>models/rooms.py\<close>)\<close>

definition room_id_chars :: string where
  "room_id_chars = ''abcdefghijklmnopqrstuvwxyzABCDEFGHIJKLMNOPQRSTUVWXYZ0123456789''"

text \<open>\<open>random.choices(chars, k=4)\<close>: four draws, each an index into \<open>chars\<close>.\<close>

definition generate_room_id :: "(nat \<Rightarrow> nat) \<Rightarrow> room_id" where
  "generate_room_id draw = map (\<lambda>j. room_id_chars ! (draw j mod 62)) [0..<4]"

datatype db_error =
    DbError                 \<comment> \<open>an exception of the driver that is not a duplicate key\<close>
  | GenerationFailed        \<comment> \<open>"Failed to generate unique room ID after multiple attempts"\<close>
  | TypeError               \<comment> \<open>a call that does not fit the signature\<close>

text \<open>
  \<open>Room.create_room()\<close>: at most \<open>max_attempts = 10\<close> candidates. Attempt \<open>i\<close> draws
  its id from \<open>draws i\<close>; \<open>raises i\<close> says whether the driver fails there for another
  reason than a duplicate key.
\<close>

fun create_room_loop ::
  "nat \<Rightarrow> nat \<Rightarrow> (nat \<Rightarrow> nat \<Rightarrow> nat) \<Rightarrow> (nat \<Rightarrow> bool) \<Rightarrow> timestamp \<Rightarrow> db \<Rightarrow> db_error + (room \<times> db)"
  where
  "create_room_loop 0 i draws raises now d = Inl GenerationFailed"
| "create_room_loop (Suc n) i draws raises now d =
     (let rid = generate_room_id (draws i) in
      if raises i then Inl DbError
      else if rid \<in> set (map room_id (rooms d)) then
        create_room_loop n (Suc i) draws raises now d
      else
        let row = \<lparr>room_id = rid, status = Pending, created_at = now, accepted_at = None,
                   expires_at = None, closed_at = None, archive_key = None\<rparr>
        in Inr (row, d\<lparr>rooms := rooms d @ [row]\<rparr>))"

definition Room_create_room ::
  "(nat \<Rightarrow> nat \<Rightarrow> nat) \<Rightarrow> (nat \<Rightarrow> bool) \<Rightarrow> timestamp \<Rightarrow> db \<Rightarrow> db_error + (room \<times> db)" where
  "Room_create_room draws raises now d = create_room_loop 10 0 draws raises now d"

definition Room_accept_room :: "room_id \<Rightarrow> timestamp \<Rightarrow> bool \<Rightarrow> db \<Rightarrow> bool \<times> db" where
  "Room_accept_room rid now raises d =
     (if raises then (False, d)
      else
        let hit = (\<lambda>r. room_id r = rid \<and> status r = Pending)
        in (list_ex hit (rooms d),
            d\<lparr>rooms := sql_update hit
                 (\<lambda>r. r\<lparr>status := Active, accepted_at := Some now,
                         expires_at := Some (now + 24 * 3600)\<rparr>) (rooms d)\<rparr>))"

definition Room_get_room :: "room_id \<Rightarrow> bool \<Rightarrow> db \<Rightarrow> room option" where
  "Room_get_room rid raises d =
     (if raises then None else find (\<lambda>r. room_id r = rid) (rooms d))"

definition Room_close_room :: "room_id \<Rightarrow> timestamp \<Rightarrow> bool \<Rightarrow> db \<Rightarrow> bool \<times> db" where
  "Room_close_room rid now raises d =
     (if raises then (False, d)
      else
        let hit = (\<lambda>r. room_id r = rid \<and> (status r = Active \<or> status r = Locked))
        in (list_ex hit (rooms d),
            d\<lparr>rooms := sql_update hit (\<lambda>r. r\<lparr>status := Closed, closed_at := Some now\<rparr>)
                 (rooms d)\<rparr>))"

definition Room_lock_room :: "room_id \<Rightarrow> bool \<Rightarrow> db \<Rightarrow> bool \<times> db" where
  "Room_lock_room rid raises d =
     (if raises then (False, d)
      else
        let hit = (\<lambda>r. room_id r = rid \<and> status r = Active)
        in (list_ex hit (rooms d),
            d\<lparr>rooms := sql_update hit (\<lambda>r. r\<lparr>status := Locked\<rparr>) (rooms d)\<rparr>))"

definition Room_unlock_room :: "room_id \<Rightarrow> bool \<Rightarrow> db \<Rightarrow> bool \<times> db" where
  "Room_unlock_room rid raises d =
     (if raises then (False, d)
      else
        let hit = (\<lambda>r. room_id r = rid \<and> status r = Locked)
        in (list_ex hit (rooms d),
            d\<lparr>rooms := sql_update hit (\<lambda>r. r\<lparr>status := Active\<rparr>) (rooms d)\<rparr>))"

definition expired :: "timestamp \<Rightarrow> room \<Rightarrow> bool" where
  "expired now r = (case expires_at r of None \<Rightarrow> False | Some e \<Rightarrow> e < now)"

definition Room_get_expired_rooms :: "timestamp \<Rightarrow> bool \<Rightarrow> db \<Rightarrow> room_id list" where
  "Room_get_expired_rooms now raises d =
     (if raises then []
      else map room_id
             (filter (\<lambda>r. (status r = Active \<or> status r = Locked) \<and> expired now r) (rooms d)))"

definition Room_archive_room :: "room_id \<Rightarrow> string \<Rightarrow> bool \<Rightarrow> db \<Rightarrow> bool \<times> db" where
  "Room_archive_room rid key raises d =
     (if raises then (False, d)
      else
        let hit = (\<lambda>r. room_id r = rid \<and> status r = Closed)
        in (list_ex hit (rooms d),
            d\<lparr>rooms := sql_update hit (\<lambda>r. r\<lparr>status := Archived, archive_key := Some key\<rparr>)
                 (rooms d)\<rparr>))"

subsection \<open>\<open>Participant\<close> (\<open>models/participants.py\<close>)\<close>

text \<open>
  Every method catches its exceptions and returns a default (\<open>None\<close>, \<open>0\<close>, \<open>False\<close>,
  \<open>[]\<close>) instead.
\<close>

definition Participant_create_participant ::
  "room_id \<Rightarrow> role \<Rightarrow> string \<Rightarrow> string \<Rightarrow> timestamp \<Rightarrow> bool \<Rightarrow> db \<Rightarrow> participant option \<times> db"
  where
  "Participant_create_participant rid rl device ip now raises d =
     (if raises then (None, d)
      else
        let row = \<lparr>p_id = next_participant_id d, p_room_id = rid, p_role = rl,
                   p_device_id = device, p_display_name = None, p_ip_address = Some ip,
                   p_joined_at = now\<rparr>
        in (Some row,
            d\<lparr>participants := participants d @ [row],
              next_participant_id := Suc (next_participant_id d)\<rparr>))"

definition Participant_get_participant :: "nat \<Rightarrow> bool \<Rightarrow> db \<Rightarrow> participant option" where
  "Participant_get_participant pid raises d =
     (if raises then None else find (\<lambda>p. p_id p = pid) (participants d))"

definition Participant_get_participant_by_device ::
  "room_id \<Rightarrow> string \<Rightarrow> bool \<Rightarrow> db \<Rightarrow> participant option" where
  "Participant_get_participant_by_device rid device raises d =
     (if raises then None
      else find (\<lambda>p. p_room_id p = rid \<and> p_device_id p = device) (participants d))"

definition Participant_count_participants :: "room_id \<Rightarrow> bool \<Rightarrow> db \<Rightarrow> nat" where
  "Participant_count_participants rid raises d =
     (if raises then 0 else length (filter (\<lambda>p. p_room_id p = rid) (participants d)))"

definition Participant_remove_participant :: "nat \<Rightarrow> bool \<Rightarrow> db \<Rightarrow> bool \<times> db" where
  "Participant_remove_participant pid raises d =
     (if raises then (False, d)
      else (True, d\<lparr>participants := filter (\<lambda>p. p_id p \<noteq> pid) (participants d)\<rparr>))"

text \<open>
  \<open>cleanup_inactive_participants\<close> reads \<open>rowcount\<close> off the value \<open>db.execute\<close>
  returns, which is \<open>None\<close> for a \<open>DELETE\<close>: the count it returns is always 0.
\<close>

definition Participant_cleanup_inactive_participants ::
  "room_id \<Rightarrow> nat list \<Rightarrow> bool \<Rightarrow> db \<Rightarrow> nat \<times> db" where
  "Participant_cleanup_inactive_participants rid active_participant_ids raises d =
     (if raises then (0, d)
      else if active_participant_ids = [] then
        (0, d\<lparr>participants := filter (\<lambda>p. \<not> p_room_id p = rid) (participants d)\<rparr>)
      else
        (0, d\<lparr>participants :=
                filter (\<lambda>p. \<not> (p_room_id p = rid \<and> p_id p \<notin> set active_participant_ids))
                  (participants d)\<rparr>))"

definition Participant_get_room_participants :: "room_id \<Rightarrow> bool \<Rightarrow> db \<Rightarrow> participant list" where
  "Participant_get_room_participants rid raises d =
     (if raises then []
      else sort_key p_joined_at (filter (\<lambda>p. p_room_id p = rid) (participants d)))"

definition Participant_set_display_name :: "nat \<Rightarrow> string \<Rightarrow> bool \<Rightarrow> db \<Rightarrow> bool \<times> db" where
  "Participant_set_display_name pid name raises d =
     (if raises then (False, d)
      else (list_ex (\<lambda>p. p_id p = pid) (participants d),
            d\<lparr>participants := sql_update (\<lambda>p. p_id p = pid)
                 (\<lambda>p. p\<lparr>p_display_name := Some name\<rparr>) (participants d)\<rparr>))"

definition Participant_validate_device_access ::
  "room_id \<Rightarrow> nat \<Rightarrow> string \<Rightarrow> bool \<Rightarrow> db \<Rightarrow> bool" where
  "Participant_validate_device_access rid pid device raises d =
     (if raises then False
      else list_ex (\<lambda>p. p_room_id p = rid \<and> p_id p = pid \<and> p_device_id p = device)
             (participants d))"

subsection \<open>\<open>Message\<close> (\<open>models/messages.py\<close>)\<close>

definition Message_create_message ::
  "room_id \<Rightarrow> nat \<Rightarrow> bytes \<Rightarrow> bytes \<Rightarrow> bytes \<Rightarrow> string \<Rightarrow> string option \<Rightarrow> timestamp \<Rightarrow> bool \<Rightarrow> db
     \<Rightarrow> message option \<times> db" where
  "Message_create_message rid pid body_ct nonce tag msg_type ip now raises d =
     (if raises then (None, d)
      else
        let row = \<lparr>m_id = next_message_id d, m_room_id = rid, m_participant_id = pid,
                   m_created_at = now, m_body_ct = body_ct, m_nonce = nonce, m_tag = tag,
                   m_msg_type = msg_type, m_ip_address = ip\<rparr>
        in (Some row,
            d\<lparr>messages := messages d @ [row], next_message_id := Suc (next_message_id d)\<rparr>))"

text \<open>
  A row of \<open>get_room_messages\<close>: the message and, from the \<open>LEFT JOIN\<close>, the display
  name and role of its participant (both \<open>NULL\<close> when the participant row is gone).
  \<open>ORDER BY m.created_at ASC\<close> is a stable sort of the rows in insertion order.
\<close>

record message_row = message +
  display_name :: "string option"
  role :: "role option"

definition join_participant :: "participant list \<Rightarrow> message \<Rightarrow> message_row" where
  "join_participant ps m =
     (case find (\<lambda>p. p_id p = m_participant_id m) ps of
        None \<Rightarrow> message.extend m (message_row.fields None None)
      | Some p \<Rightarrow> message.extend m (message_row.fields (p_display_name p) (Some (p_role p))))"

definition Message_get_room_messages :: "room_id \<Rightarrow> nat \<Rightarrow> bool \<Rightarrow> db \<Rightarrow> message_row list" where
  "Message_get_room_messages rid limit raises d =
     (if raises then []
      else map (join_participant (participants d))
             (take limit (sort_key m_created_at
                (filter (\<lambda>m. m_room_id m = rid) (messages d)))))"

definition Message_count_room_messages :: "room_id \<Rightarrow> bool \<Rightarrow> db \<Rightarrow> nat" where
  "Message_count_room_messages rid raises d =
     (if raises then 0 else length (filter (\<lambda>m. m_room_id m = rid) (messages d)))"

section \<open>Connection registry (\<open>services/connection_manager.py\<close>)\<close>

text \<open>
  The two dictionaries are association lists in insertion order: \<open>AList.update\<close>
  overwrites a key in place or appends it, as assignment to a \<open>dict\<close> does;
  \<open>AList.delete\<close> is \<open>pop\<close>/\<open>del\<close>. The lock serialises the methods, so each is one
  step of the model.
\<close>

type_synonym session_info = "room_id \<times> nat \<times> role"

record connection_manager =
  connections :: "(room_id \<times> (nat \<times> string) list) list"
  sessions :: "(string \<times> session_info) list"

definition empty_connection_manager :: connection_manager where
  "empty_connection_manager = \<lparr>connections = [], sessions = []\<rparr>"

definition dict_get :: "('k \<times> 'v list) list \<Rightarrow> 'k \<Rightarrow> 'v list" where
  "dict_get m k = (case map_of m k of None \<Rightarrow> [] | Some v \<Rightarrow> v)"

definition add_connection ::
  "string \<Rightarrow> room_id \<Rightarrow> nat \<Rightarrow> role \<Rightarrow> connection_manager \<Rightarrow> connection_manager" where
  "add_connection session_id rid pid rl cm =
     \<lparr>connections =
        AList.update rid (AList.update pid session_id (dict_get (connections cm) rid))
          (connections cm),
      sessions = AList.update session_id (rid, pid, rl) (sessions cm)\<rparr>"

definition remove_connection ::
  "string \<Rightarrow> connection_manager \<Rightarrow> session_info option \<times> connection_manager" where
  "remove_connection session_id cm =
     (case map_of (sessions cm) session_id of
        None \<Rightarrow> (None, cm)
      | Some (rid, pid, rl) \<Rightarrow>
          let conns =
                (case map_of (connections cm) rid of
                   None \<Rightarrow> connections cm
                 | Some room_conns \<Rightarrow>
                     let room_conns' = AList.delete pid room_conns
                     in if room_conns' = [] then AList.delete rid (connections cm)
                        else AList.update rid room_conns' (connections cm))
          in (Some (rid, pid, rl),
              \<lparr>connections = conns, sessions = AList.delete session_id (sessions cm)\<rparr>))"

definition get_room_connections :: "room_id \<Rightarrow> connection_manager \<Rightarrow> (nat \<times> string) list" where
  "get_room_connections rid cm = dict_get (connections cm) rid"

definition get_connection_count :: "room_id \<Rightarrow> connection_manager \<Rightarrow> nat" where
  "get_connection_count rid cm = length (dict_get (connections cm) rid)"

definition is_participant_connected :: "room_id \<Rightarrow> nat \<Rightarrow> connection_manager \<Rightarrow> bool" where
  "is_participant_connected rid pid cm = (pid \<in> set (map fst (dict_get (connections cm) rid)))"

section \<open>Which database calls raise\<close>

text \<open>
  A handler makes several database calls, each its own transaction. \<open>faults\<close> says, for
  each call a handler makes, whether that call raises; no handler makes the same call
  twice, so one flag per call site covers every pattern of failures.
\<close>

datatype db_call =
    GetRoom | AcceptRoom | InsertRoomKey | CreateParticipant | GetParticipantByDevice
  | CountParticipants | LockRoom | SelectRoomKey | GetParticipant | RemoveParticipant
  | CleanupParticipants | UnlockRoom | GetRoomParticipants | GetRoomMessages
  | ArchiveRoom | CloseRoom

type_synonym faults = "db_call \<Rightarrow> bool"

definition no_faults :: faults where
  "no_faults = (\<lambda>_. False)"

section \<open>HTTP routes (\<open>routes/rooms.py\<close>)\<close>

text \<open>
  A JWT is modelled by the claims it carries: \<open>create_access_token\<close> signs them and
  \<open>jwt_required\<close>/\<open>get_jwt\<close> give them back. A response is the status code and the
  body. Keys are returned as bytes; the base64 text the handler sends is not modelled.
\<close>

record token =
  t_room_id :: room_id
  t_participant_id :: "nat option"
  t_role :: role
  t_device_id :: string

datatype body =
    Error string
  | RoomCreated room_id token
      \<comment> \<open>\<open>{room_id, room_token, status: 'pending'}\<close>\<close>
  | Accepted "(token \<times> nat \<times> bytes) option"
      \<comment> \<open>\<open>{success: True, status: 'active'}\<close>, with \<open>participant_token\<close>,
          \<open>participant_id\<close> and \<open>room_key\<close> when present\<close>
  | Rejoined nat token role "string option" "bytes option"
      \<comment> \<open>\<open>{participant_id, participant_token, role, display_name, room_key}\<close>\<close>
  | Joined nat token role "bytes option"
      \<comment> \<open>\<open>{participant_id, participant_token, role, device_bind_required, room_key}\<close>\<close>

type_synonym response = "nat \<times> body"

subsection \<open>\<open>POST /rooms\<close>\<close>

text \<open>
  The route calls \<open>Room.create_room(room_id=room_id)\<close>. \<open>Room.create_room\<close> is declared
  without parameters, and Python raises \<open>TypeError\<close> for a keyword argument the
  signature does not have, before the body runs.
\<close>

definition Room_create_room_params :: "string list" where
  "Room_create_room_params = []"

definition call_Room_create_room ::
  "string list \<Rightarrow> (nat \<Rightarrow> nat \<Rightarrow> nat) \<Rightarrow> (nat \<Rightarrow> bool) \<Rightarrow> timestamp \<Rightarrow> db \<Rightarrow> db_error + (room \<times> db)"
  where
  "call_Room_create_room kwargs draws raises now d =
     (if list_all (\<lambda>k. k \<in> set Room_create_room_params) kwargs
      then Room_create_room draws raises now d
      else Inl TypeError)"

text \<open>
  \<open>body_room_id\<close> is \<open>data.get('room_id')\<close>: the id the caller asks for, or \<open>None\<close>.
  The keyword is passed in both cases.
\<close>

definition create_room_route ::
  "string option \<Rightarrow> string \<Rightarrow> (nat \<Rightarrow> nat \<Rightarrow> nat) \<Rightarrow> (nat \<Rightarrow> bool) \<Rightarrow> timestamp \<Rightarrow> db \<Rightarrow> response \<times> db"
  where
  "create_room_route body_room_id device draws raises now d =
     (case call_Room_create_room [''room_id''] draws raises now d of
        Inl e \<Rightarrow> ((500, Error ''Internal server error''), d)
      | Inr (room, d') \<Rightarrow>
          ((201, RoomCreated (room_id room)
                   \<lparr>t_room_id = room_id room, t_participant_id = None, t_role = Host,
                    t_device_id = device\<rparr>), d'))"

subsection \<open>\<open>POST /rooms/{id}/accept\<close>\<close>

text \<open>
  \<open>room_key\<close> is \<open>secrets.token_bytes(32)\<close> and \<open>nonce\<close> the 12 bytes
  \<open>encrypt_room_key\<close> draws. The three writes are three calls of the persistence layer.
\<close>

definition accept_room_route ::
  "aesgcm \<Rightarrow> bytes \<Rightarrow> token \<Rightarrow> room_id \<Rightarrow> string \<Rightarrow> bytes \<Rightarrow> bytes \<Rightarrow> timestamp \<Rightarrow> faults \<Rightarrow> db
     \<Rightarrow> response \<times> db" where
  "accept_room_route A master_key tok rid client_ip room_key nonce now f d =
     (if t_room_id tok \<noteq> rid \<or> t_role tok \<noteq> Host then ((403, Error ''Unauthorized''), d)
      else case Room_get_room rid (f GetRoom) d of
        None \<Rightarrow> ((404, Error ''Room not found''), d)
      | Some room \<Rightarrow>
          if status room \<noteq> Pending then ((400, Error ''Room already accepted or invalid''), d)
          else case Room_accept_room rid now (f AcceptRoom) d of
            (False, d1) \<Rightarrow> ((500, Error ''Failed to accept room''), d1)
          | (True, d1) \<Rightarrow>
              (case encrypt_room_key A master_key nonce room_key of
                 Inl e \<Rightarrow> ((500, Error ''Internal server error''), d1)
               | Inr room_key_enc \<Rightarrow>
                   if f InsertRoomKey then ((500, Error ''Internal server error''), d1)
                   else
                     let d2 = d1\<lparr>room_keys := room_keys d1 @ [(rid, room_key_enc)]\<rparr>
                     in case Participant_create_participant rid Host (t_device_id tok)
                               client_ip now (f CreateParticipant) d2 of
                          (Some p, d3) \<Rightarrow>
                            ((200, Accepted (Some
                                (\<lparr>t_room_id = rid, t_participant_id = Some (p_id p),
                                  t_role = Host, t_device_id = t_device_id tok\<rparr>,
                                 p_id p, room_key))), d3)
                        | (None, d3) \<Rightarrow> ((200, Accepted None), d3)))"

subsection \<open>\<open>POST /rooms/{id}/join\<close>\<close>

text \<open>\<open>SELECT room_key_enc FROM room_keys WHERE room_id = %s\<close>, first row.\<close>

definition select_room_key :: "room_id \<Rightarrow> bool \<Rightarrow> db \<Rightarrow> bytes option" where
  "select_room_key rid raises d =
     (if raises then None else map_option snd (find (\<lambda>kv. fst kv = rid) (room_keys d)))"

text \<open>The \<open>try\<close> block of the route that reads and unwraps the key; any exception gives \<open>None\<close>.\<close>

definition room_key_for :: "aesgcm \<Rightarrow> bytes \<Rightarrow> room_id \<Rightarrow> bool \<Rightarrow> db \<Rightarrow> bytes option" where
  "room_key_for A master_key rid raises d =
     (case select_room_key rid raises d of
        None \<Rightarrow> None
      | Some enc \<Rightarrow>
          (case decrypt_room_key A master_key enc of Inl e \<Rightarrow> None | Inr k \<Rightarrow> Some k))"

definition join_room_route ::
  "aesgcm \<Rightarrow> bytes \<Rightarrow> room_id \<Rightarrow> string \<Rightarrow> string \<Rightarrow> timestamp \<Rightarrow> faults \<Rightarrow> connection_manager \<Rightarrow> db
     \<Rightarrow> response \<times> db" where
  "join_room_route A master_key rid device_id client_ip now f cm d =
     (case Room_get_room rid (f GetRoom) d of
        None \<Rightarrow> ((404, Error ''Room not found''), d)
      | Some room \<Rightarrow>
          if \<not> (status room = Active \<or> status room = Locked) then
            ((400, Error ''Room is not available for joining''), d)
          else if expired now room then ((410, Error ''Room has expired''), d)
          else case Participant_get_participant_by_device rid device_id
                      (f GetParticipantByDevice) d of
            Some existing_participant \<Rightarrow>
              ((200, Rejoined (p_id existing_participant)
                       \<lparr>t_room_id = rid, t_participant_id = Some (p_id existing_participant),
                        t_role = p_role existing_participant, t_device_id = device_id\<rparr>
                       (p_role existing_participant) (p_display_name existing_participant)
                       (room_key_for A master_key rid (f SelectRoomKey) d)), d)
          | None \<Rightarrow>
              let active_participant_count = get_connection_count rid cm;
                  db_participant_count = Participant_count_participants rid (f CountParticipants) d;
                  max_participant_count = max active_participant_count db_participant_count
              in if max_participant_count \<ge> 2 then ((409, Error ''Room is full''), d)
                 else
                   let rl = (if db_participant_count = 0 then Host else Guest)
                   in case Participant_create_participant rid rl device_id client_ip now
                             (f CreateParticipant) d of
                        (None, d1) \<Rightarrow> ((500, Error ''Failed to join room''), d1)
                      | (Some p, d1) \<Rightarrow>
                          let d2 = (if db_participant_count = 1
                                    then snd (Room_lock_room rid (f LockRoom) d1) else d1)
                          in ((201, Joined (p_id p)
                                      \<lparr>t_room_id = rid, t_participant_id = Some (p_id p),
                                       t_role = rl, t_device_id = device_id\<rparr>
                                      rl (room_key_for A master_key rid (f SelectRoomKey) d2)),
                              d2))"

section \<open>Socket handlers (\<open>sockets.py\<close>)\<close>

text \<open>
  The Flask session of a socket holds what \<open>on_connect\<close> stored. \<open>emit\<close> and
  \<open>leave_room\<close> send frames and change neither the registry nor the database; the
  frames are not part of the model, the database reads made for them are.
\<close>

record flask_session =
  s_room_id :: "room_id option"
  s_participant_id :: "nat option"
  s_device_id :: "string option"
  s_role :: "role option"

text \<open>
  \<open>if room_id and participant_id\<close>: \<open>None\<close>, the empty string and 0 are falsy, and
  then the handler does nothing at all.
\<close>

definition on_disconnect ::
  "flask_session \<Rightarrow> string \<Rightarrow> faults \<Rightarrow> connection_manager \<Rightarrow> db \<Rightarrow> connection_manager \<times> db" where
  "on_disconnect sess session_id f cm d =
     (case (s_room_id sess, s_participant_id sess) of
        (Some rid, Some pid) \<Rightarrow>
          if rid \<noteq> [] \<and> pid \<noteq> 0 then
            let (session_info, cm1) = remove_connection session_id cm;
                participant = Participant_get_participant pid (f GetParticipant) d;
                (removed, d1) = Participant_remove_participant pid (f RemoveParticipant) d;
                room_connections = get_room_connections rid cm1;
                remaining_participant_ids = map fst room_connections;
                (cleaned, d2) = Participant_cleanup_inactive_participants rid
                                  remaining_participant_ids (f CleanupParticipants) d1;
                connected_count = length remaining_participant_ids;
                d3 = (if connected_count < 2 then
                        (case Room_get_room rid (f GetRoom) d2 of
                           None \<Rightarrow> d2
                         | Some current_room \<Rightarrow>
                             if status current_room = Locked
                             then snd (Room_unlock_room rid (f UnlockRoom) d2) else d2)
                      else d2);
                all_participants =
                  Participant_get_room_participants rid (f GetRoomParticipants) d3
            in (cm1, d3)
          else (cm, d)
      | _ \<Rightarrow> (cm, d))"

section \<open>Archival (\<open>services/archive.py\<close>, \<open>services/storage.py\<close>)\<close>

record archived_message =
  am_id :: nat
  am_participant_id :: nat
  am_display_name :: "string option"
  am_role :: "role option"
  am_created_at :: timestamp
  am_message :: py_str
  am_msg_type :: string
  am_ip_address :: "string option"
  am_error :: "crypto_error option"
    \<comment> \<open>the key \<open>error\<close>, present only after a failed decryption; it holds the text of the
        exception, which is modelled by the exception itself\<close>

record archive_data =
  ad_room :: room
  ad_participants :: "participant list"
  ad_messages :: "archived_message list"
  ad_archived_at :: timestamp
  ad_message_count :: nat
  ad_participant_count :: nat

text \<open>
  The archive bucket maps object names to documents. \<open>json.dumps\<close> and the JSON text
  are not modelled: the bucket holds the document. What MinIO does with an upload is an
  input: it stores the object, raises \<open>S3Error\<close> (which \<open>store_archive\<close> catches), or
  raises something else (which it does not catch).
\<close>

type_synonym storage = "(string \<times> archive_data) list"

datatype upload_outcome = Stored | S3Error | OtherError

definition store_archive ::
  "string \<Rightarrow> archive_data \<Rightarrow> upload_outcome \<Rightarrow> storage \<Rightarrow> (bool \<times> storage) option" where
  "store_archive archive_key' data outcome st =
     (case outcome of
        Stored \<Rightarrow> Some (True, AList.update archive_key' data st)
      | S3Error \<Rightarrow> Some (False, st)
      | OtherError \<Rightarrow> None)"

definition get_archive :: "string \<Rightarrow> storage \<Rightarrow> archive_data option" where
  "get_archive archive_key' st = map_of st archive_key'"

definition DECRYPTION_FAILED :: py_str where
  "DECRYPTION_FAILED = map of_char ''[DECRYPTION_FAILED]''"

text \<open>The body of the loop over the encrypted messages: its \<open>try\<close> and its \<open>except\<close>.\<close>

definition archive_message :: "aesgcm \<Rightarrow> bytes \<Rightarrow> message_row \<Rightarrow> archived_message" where
  "archive_message A room_key msg =
     (case decrypt_message A room_key (m_body_ct msg) (m_nonce msg) (m_tag msg) of
        Inr decrypted_text \<Rightarrow>
          \<lparr>am_id = m_id msg, am_participant_id = m_participant_id msg,
           am_display_name = display_name msg, am_role = role msg,
           am_created_at = m_created_at msg, am_message = decrypted_text,
           am_msg_type = m_msg_type msg, am_ip_address = m_ip_address msg, am_error = None\<rparr>
      | Inl e \<Rightarrow>
          \<lparr>am_id = m_id msg, am_participant_id = m_participant_id msg,
           am_display_name = display_name msg, am_role = role msg,
           am_created_at = m_created_at msg, am_message = DECRYPTION_FAILED,
           am_msg_type = m_msg_type msg, am_ip_address = m_ip_address msg, am_error = Some e\<rparr>)"

definition archive_object_key :: "room_id \<Rightarrow> string \<Rightarrow> string" where
  "archive_object_key rid stamp = ''archives/'' @ rid @ ''/'' @ stamp @ ''.json''"

text \<open>
  \<open>stamp\<close> is \<open>datetime.utcnow().strftime('%Y%m%d_%H%M%S')\<close>. The result is the value
  returned, the database and the bucket.
\<close>

definition ArchiveService_archive_room ::
  "aesgcm \<Rightarrow> bytes \<Rightarrow> room_id \<Rightarrow> timestamp \<Rightarrow> string \<Rightarrow> faults \<Rightarrow> upload_outcome \<Rightarrow> db \<Rightarrow> storage
     \<Rightarrow> bool \<times> db \<times> storage" where
  "ArchiveService_archive_room A master_key rid now stamp f outcome d st =
     (case Room_get_room rid (f GetRoom) d of
        None \<Rightarrow> (False, d, st)
      | Some room \<Rightarrow>
          let ps = Participant_get_room_participants rid (f GetRoomParticipants) d;
              encrypted_messages = Message_get_room_messages rid 10000 (f GetRoomMessages) d
          in case select_room_key rid (f SelectRoomKey) d of
               None \<Rightarrow> (False, d, st)
             | Some room_key_enc \<Rightarrow>
                 if room_key_enc = [] then (False, d, st)
                 else case decrypt_room_key A master_key room_key_enc of
                   Inl e \<Rightarrow> (False, d, st)
                 | Inr room_key \<Rightarrow>
                     let decrypted_messages = map (archive_message A room_key) encrypted_messages;
                         data = \<lparr>ad_room = room, ad_participants = ps,
                                 ad_messages = decrypted_messages, ad_archived_at = now,
                                 ad_message_count = length decrypted_messages,
                                 ad_participant_count = length ps\<rparr>;
                         key = archive_object_key rid stamp
                     in case store_archive key data outcome st of
                          None \<Rightarrow> (False, d, st)
                        | Some (False, st') \<Rightarrow> (False, d, st')
                        | Some (True, st') \<Rightarrow>
                            (case Room_archive_room rid key (f ArchiveRoom) d of
                               (ok, d') \<Rightarrow> (ok, d', st')))"

text \<open>
  \<open>process_expired_rooms\<close>, the body of the 60-second sweep. \<open>fs rid\<close> and \<open>up rid\<close>
  are the failures met while room \<open>rid\<close> is processed.
\<close>

fun process_rooms ::
  "aesgcm \<Rightarrow> bytes \<Rightarrow> timestamp \<Rightarrow> string \<Rightarrow> (room_id \<Rightarrow> faults) \<Rightarrow> (room_id \<Rightarrow> upload_outcome)
     \<Rightarrow> room_id list \<Rightarrow> db \<Rightarrow> storage \<Rightarrow> db \<times> storage" where
  "process_rooms A master_key now stamp fs up [] d st = (d, st)"
| "process_rooms A master_key now stamp fs up (rid # rest) d st =
     (case Room_close_room rid now (fs rid CloseRoom) d of
        (True, d1) \<Rightarrow>
          (case ArchiveService_archive_room A master_key rid now stamp (fs rid) (up rid) d1 st of
             (ok, d2, st2) \<Rightarrow> process_rooms A master_key now stamp fs up rest d2 st2)
      | (False, d1) \<Rightarrow> process_rooms A master_key now stamp fs up rest d1 st)"

definition process_expired_rooms ::
  "aesgcm \<Rightarrow> bytes \<Rightarrow> timestamp \<Rightarrow> string \<Rightarrow> bool \<Rightarrow> (room_id \<Rightarrow> faults) \<Rightarrow> (room_id \<Rightarrow> upload_outcome)
     \<Rightarrow> db \<Rightarrow> storage \<Rightarrow> db \<times> storage" where
  "process_expired_rooms A master_key now stamp expired_raises fs up d st =
     process_rooms A master_key now stamp fs up
       (Room_get_expired_rooms now expired_raises d) d st"

section \<open>Reachable states\<close>




text \<open>
  The states of the whole database that the handlers of the service can produce from the
  empty database. Room creation stands for what \<open>Room.create_room\<close> does when it is
  called as declared; \<open>close\<close> is what the destroy route, the \<open>destroy_room\<close> frame
  and a rejected verification do; the registry a handler sees is arbitrary.
\<close>

inductive sys_reachable :: "db \<Rightarrow> bool" where
  init: "sys_reachable empty_db"
| create: "sys_reachable d \<Longrightarrow> Room_create_room draws raises now d = Inr (row, d')
             \<Longrightarrow> sys_reachable d'"
| accept: "sys_reachable d
             \<Longrightarrow> sys_reachable (snd (accept_room_route A mk tok rid ip rk nonce now f d))"
| join: "sys_reachable d \<Longrightarrow> sys_reachable (snd (join_room_route A mk rid dev ip now f cm d))"
| disconnect: "sys_reachable d \<Longrightarrow> sys_reachable (snd (on_disconnect sess sid f cm d))"
| set_name: "sys_reachable d \<Longrightarrow> sys_reachable (snd (Participant_set_display_name pid name g d))"
| send: "sys_reachable d
           \<Longrightarrow> sys_reachable (snd (Message_create_message rid pid ct nonce tag ty ip now g d))"
| close: "sys_reachable d \<Longrightarrow> sys_reachable (snd (Room_close_room rid now g d))"
| sweep: "sys_reachable d
            \<Longrightarrow> sys_reachable (fst (process_expired_rooms A mk now stamp g fs up d st))"


text \<open>
  Room ids are unique, and every participant row belongs to a room that has left
  \<open>pending\<close>.
\<close>

definition joined_rooms_ok :: "room list \<Rightarrow> participant list \<Rightarrow> bool" where
  "joined_rooms_ok rs ps =
     (distinct (map room_id rs)
      \<and> list_all (\<lambda>p. list_ex (\<lambda>r. room_id r = p_room_id p \<and> status r \<noteq> Pending) rs) ps)"

definition db_ok :: "db \<Rightarrow> bool" where
  "db_ok d = joined_rooms_ok (rooms d) (participants d)"


text \<open>The row \<open>accept_room\<close> inserts for the host.\<close>

definition host_row :: "room_id \<Rightarrow> string \<Rightarrow> string \<Rightarrow> timestamp \<Rightarrow> db \<Rightarrow> participant" where
  "host_row rid device ip now d =
     \<lparr>p_id = next_participant_id d, p_room_id = rid, p_role = Host, p_device_id = device,
      p_display_name = None, p_ip_address = Some ip, p_joined_at = now\<rparr>"


text \<open>The row \<open>join_room\<close> inserts on a fresh join.\<close>

definition joined_row :: "room_id \<Rightarrow> role \<Rightarrow> string \<Rightarrow> string \<Rightarrow> timestamp \<Rightarrow> db \<Rightarrow> participant" where
  "joined_row rid rl device ip now d =
     \<lparr>p_id = next_participant_id d, p_room_id = rid, p_role = rl, p_device_id = device,
      p_display_name = None, p_ip_address = Some ip, p_joined_at = now\<rparr>"

section \<open>Example data\<close>

definition example_room :: room where
  "example_room = \<lparr>room_id = ''Ab12'', status = Pending, created_at = 100, accepted_at = None,
            expires_at = None, closed_at = None, archive_key = None\<rparr>"

definition example_draws :: "nat \<Rightarrow> nat \<Rightarrow> nat" where
  "example_draws i j = [26, 1, 53, 54] ! j"

definition example_db :: db where
  "example_db = empty_db\<lparr>rooms := [example_room]\<rparr>"

definition example_host_token :: token where
  "example_host_token =
     \<lparr>t_room_id = ''Ab12'', t_participant_id = None, t_role = Host, t_device_id = ''dev-h''\<rparr>"


definition example_wrapped_key :: bytes where
  "example_wrapped_key =
     replicate 12 2 @ gcm_encrypt toy_aead (replicate 32 1) (replicate 12 2) (replicate 32 3)"

definition example_host :: participant where
  "example_host = host_row ''Ab12'' ''dev-h'' ''10.0.0.1'' 200 example_db"

definition example_active_db :: db where
  "example_active_db =
     example_db\<lparr>rooms := [example_room\<lparr>status := Active, accepted_at := Some 200,
                                          expires_at := Some 86600\<rparr>],
                room_keys := [(''Ab12'', example_wrapped_key)],
                participants := [example_host],
                next_participant_id := 2\<rparr>"

definition example_guest :: participant where
  "example_guest = joined_row ''Ab12'' Guest ''dev-g'' ''10.0.0.2'' 250 example_active_db"

definition example_locked_db :: db where
  "example_locked_db =
     example_active_db\<lparr>rooms := [example_room\<lparr>status := Locked, accepted_at := Some 200,
                                                 expires_at := Some 86600\<rparr>],
                       participants := [example_host, example_guest],
                       next_participant_id := 3\<rparr>"

definition example_cm :: connection_manager where
  "example_cm =
     add_connection ''sid-g'' ''Ab12'' 2 Guest
       (add_connection ''sid-h'' ''Ab12'' 1 Host empty_connection_manager)"

definition example_guest_session :: flask_session where
  "example_guest_session =
     \<lparr>s_room_id = Some ''Ab12'', s_participant_id = Some 2, s_device_id = Some ''dev-g'',
      s_role = Some Guest\<rparr>"

definition example_hi :: py_str where
  "example_hi = [0x68, 0x69]"

definition example_hi_bytes :: bytes where
  "example_hi_bytes = [byte_of 0x68, byte_of 0x69]"

definition example_sealed :: bytes where
  "example_sealed = gcm_encrypt toy_aead (replicate 32 3) (replicate 12 5) example_hi_bytes"

definition example_message_ok :: message where
  "example_message_ok =
     \<lparr>m_id = 1, m_room_id = ''Ab12'', m_participant_id = 1, m_created_at = 260,
      m_body_ct = take 2 example_sealed, m_nonce = replicate 12 5,
      m_tag = drop 2 example_sealed, m_msg_type = ''text'', m_ip_address = None\<rparr>"

definition example_message_bad :: message where
  "example_message_bad =
     \<lparr>m_id = 2, m_room_id = ''Ab12'', m_participant_id = 2, m_created_at = 270,
      m_body_ct = take 2 example_sealed, m_nonce = replicate 12 5,
      m_tag = [], m_msg_type = ''text'', m_ip_address = None\<rparr>"

definition example_closed_room :: room where
  "example_closed_room =
     example_room\<lparr>status := Closed, accepted_at := Some 200, expires_at := Some 86600,
                  closed_at := Some 90000\<rparr>"

definition example_closed_db :: db where
  "example_closed_db =
     example_locked_db\<lparr>rooms := [example_closed_room],
                       messages := [example_message_ok, example_message_bad],
                       next_message_id := 3\<rparr>"

definition no_room_faults :: "room_id \<Rightarrow> faults" where
  "no_room_faults rid = no_faults"

definition upload_always :: "upload_outcome \<Rightarrow> room_id \<Rightarrow> upload_outcome" where
  "upload_always outcome rid = outcome"

definition example_unarchived_db :: db where
  "example_unarchived_db = example_active_db\<lparr>rooms := [example_closed_room]\<rparr>"

definition example_numbered_message :: "nat \<Rightarrow> message" where
  "example_numbered_message i = example_message_bad\<lparr>m_id := i, m_created_at := 260 + i\<rparr>"

definition example_big_db :: db where
  "example_big_db =
     example_closed_db\<lparr>messages := map example_numbered_message [1..<10002],
                       next_message_id := 10002\<rparr>"

definition example_locked_room :: room where
  "example_locked_room =
     example_room\<lparr>status := Locked, accepted_at := Some 200, expires_at := Some 86600\<rparr>"


section \<open>Supporting lemmas\<close>

subsection \<open>Rows and updates\<close>

lemma no_faults_applied: "no_faults c = False"
  by (simp add: no_faults_def)

lemma find_sql_update:
  assumes "find (\<lambda>r. room_id r = rid) rows = Some r"
    and "\<And>x. cond x \<Longrightarrow> room_id x = rid"
    and "\<And>x. room_id (upd x) = room_id x"
  shows "find (\<lambda>r. room_id r = rid) (sql_update cond upd rows)
           = Some (if cond r then upd r else r)"
  using assms(1)
proof (induction rows)
  case Nil
  then show ?case by simp
next
  case (Cons x xs)
  show ?case
  proof (cases "room_id x = rid")
    case True
    with Cons.prems have "x = r" by simp
    with True assms(3) show ?thesis by (simp add: sql_update_def)
  next
    case False
    then have "\<not> cond x" using assms(2) by blast
    with False Cons show ?thesis by (simp add: sql_update_def)
  qed
qed

lemma find_SomeD: "find P xs = Some x \<Longrightarrow> P x \<and> x \<in> set xs"
  by (induction xs) (auto split: if_splits)

lemma accept_room_hits:
  assumes "Room_get_room rid g d = Some room" and "status room = Pending"
  shows "Room_accept_room rid now False d
           = (True, d\<lparr>rooms := sql_update (\<lambda>r. room_id r = rid \<and> status r = Pending)
                 (\<lambda>r. r\<lparr>status := Active, accepted_at := Some now,
                         expires_at := Some (now + 24 * 3600)\<rparr>) (rooms d)\<rparr>)"
proof -
  from assms(1) have "find (\<lambda>r. room_id r = rid) (rooms d) = Some room"
    by (simp add: Room_get_room_def split: if_splits)
  from find_SomeD [OF this] assms(2)
  have "list_ex (\<lambda>r. room_id r = rid \<and> status r = Pending) (rooms d)"
    by (auto simp: list_ex_iff)
  then show ?thesis by (simp add: Room_accept_room_def Let_def)
qed

lemma accept_room_status:
  assumes "Room_get_room rid g d = Some room" and "status room = Pending"
  shows "Room_get_room rid False (snd (Room_accept_room rid now False d))
           = Some (room\<lparr>status := Active, accepted_at := Some now,
                        expires_at := Some (now + 24 * 3600)\<rparr>)"
proof -
  from assms(1) have f: "find (\<lambda>r. room_id r = rid) (rooms d) = Some room"
    by (simp add: Room_get_room_def split: if_splits)
  from find_SomeD [OF f] have "room_id room = rid" by simp
  with find_sql_update [OF f, of "\<lambda>r. room_id r = rid \<and> status r = Pending"
      "\<lambda>r. r\<lparr>status := Active, accepted_at := Some now, expires_at := Some (now + 24 * 3600)\<rparr>"]
    assms(2)
  show ?thesis
    by (simp add: accept_room_hits [OF assms] Room_get_room_def)
qed


lemma accept_room_other_tables:
  "room_keys (snd (Room_accept_room rid now g d)) = room_keys d"
  "participants (snd (Room_accept_room rid now g d)) = participants d"
  "messages (snd (Room_accept_room rid now g d)) = messages d"
  "next_participant_id (snd (Room_accept_room rid now g d)) = next_participant_id d"
  by (simp_all add: Room_accept_room_def Let_def)

lemma map_room_id_sql_update:
  "(\<And>r. room_id (upd r) = room_id r) \<Longrightarrow> map room_id (sql_update c upd rs) = map room_id rs"
  by (induction rs) (simp_all add: sql_update_def)

lemma list_ex_sql_update:
  assumes "list_ex (\<lambda>r. room_id r = k \<and> status r \<noteq> Pending) rs"
    and "\<And>r. room_id (upd r) = room_id r" and "\<And>r. status (upd r) \<noteq> Pending"
  shows "list_ex (\<lambda>r. room_id r = k \<and> status r \<noteq> Pending) (sql_update c upd rs)"
  using assms by (induction rs) (auto simp: sql_update_def)

lemma ok_update:
  assumes "joined_rooms_ok rs ps"
    and "\<And>r. room_id (upd r) = room_id r" and "\<And>r. status (upd r) \<noteq> Pending"
  shows "joined_rooms_ok (sql_update c upd rs) ps"
  using assms
  by (auto simp: joined_rooms_ok_def map_room_id_sql_update list_all_iff
      intro!: list_ex_sql_update)

lemma ok_filter: "joined_rooms_ok rs ps \<Longrightarrow> joined_rooms_ok rs (filter P ps)"
  by (auto simp: joined_rooms_ok_def list_all_iff)

lemma ok_rename:
  "joined_rooms_ok rs ps \<Longrightarrow> (\<And>p. p_room_id (upd p) = p_room_id p)
     \<Longrightarrow> joined_rooms_ok rs (sql_update c upd ps)"
  by (auto simp: joined_rooms_ok_def list_all_iff sql_update_def)

lemma ok_add_participant:
  "joined_rooms_ok rs ps \<Longrightarrow> list_ex (\<lambda>r. room_id r = p_room_id p \<and> status r \<noteq> Pending) rs
     \<Longrightarrow> joined_rooms_ok rs (ps @ [p])"
  by (auto simp: joined_rooms_ok_def)

lemma ok_add_room:
  "joined_rooms_ok rs ps \<Longrightarrow> room_id r \<notin> set (map room_id rs) \<Longrightarrow> joined_rooms_ok (rs @ [r]) ps"
  by (auto simp: joined_rooms_ok_def list_all_iff list_ex_iff)





subsection \<open>The accept route, step by step\<close>

lemma accept_room_route_eq:
  assumes tok: "t_room_id tok = rid" "t_role tok = Host"
    and room: "Room_get_room rid (f GetRoom) d = Some room" "status room = Pending"
    and keys: "length master_key = 32" "length nonce = 12"
  shows "accept_room_route A master_key tok rid ip rk nonce now f d =
     (if f AcceptRoom then ((500, Error ''Failed to accept room''), d)
      else
        let d1 = snd (Room_accept_room rid now False d) in
        if f InsertRoomKey then ((500, Error ''Internal server error''), d1)
        else
          let d2 = d1\<lparr>room_keys :=
                       room_keys d @ [(rid, nonce @ gcm_encrypt A master_key nonce rk)]\<rparr> in
          if f CreateParticipant then ((200, Accepted None), d2)
          else
            ((200, Accepted (Some (\<lparr>t_room_id = rid,
                                    t_participant_id = Some (next_participant_id d),
                                    t_role = Host, t_device_id = t_device_id tok\<rparr>,
                                   next_participant_id d, rk))),
             d2\<lparr>participants := participants d @ [host_row rid (t_device_id tok) ip now d],
                next_participant_id := Suc (next_participant_id d)\<rparr>))"
proof -
  have wrap: "encrypt_room_key A master_key nonce rk
                = Inr (nonce @ gcm_encrypt A master_key nonce rk)"
    by (simp add: encrypt_room_key_def AESGCM_def aesgcm_encrypt_def nonce_ok_def keys)
  have flip: "Room_accept_room rid now False d = (True, snd (Room_accept_room rid now False d))"
    by (simp add: accept_room_hits [OF room])
  have fail: "Room_accept_room rid now True d = (False, d)"
    by (simp add: Room_accept_room_def)
  show ?thesis
  proof (cases "f AcceptRoom")
    case True
    then show ?thesis
      by (simp add: accept_room_route_def tok room fail)
  next
    case False
    have "accept_room_route A master_key tok rid ip rk nonce now f d =
            (case Room_accept_room rid now False d of
               (False, d1) \<Rightarrow> ((500, Error ''Failed to accept room''), d1)
             | (True, d1) \<Rightarrow>
                 (case encrypt_room_key A master_key nonce rk of
                    Inl e \<Rightarrow> ((500, Error ''Internal server error''), d1)
                  | Inr room_key_enc \<Rightarrow>
                      if f InsertRoomKey then ((500, Error ''Internal server error''), d1)
                      else
                        let d2 = d1\<lparr>room_keys := room_keys d1 @ [(rid, room_key_enc)]\<rparr>
                        in case Participant_create_participant rid Host (t_device_id tok)
                                  ip now (f CreateParticipant) d2 of
                             (Some p, d3) \<Rightarrow>
                               ((200, Accepted (Some
                                   (\<lparr>t_room_id = rid, t_participant_id = Some (p_id p),
                                     t_role = Host, t_device_id = t_device_id tok\<rparr>,
                                    p_id p, rk))), d3)
                           | (None, d3) \<Rightarrow> ((200, Accepted None), d3)))"
      using False by (simp add: accept_room_route_def tok room)
    also have "\<dots> = (let d1 = snd (Room_accept_room rid now False d) in
        if f InsertRoomKey then ((500, Error ''Internal server error''), d1)
        else
          let d2 = d1\<lparr>room_keys :=
                       room_keys d @ [(rid, nonce @ gcm_encrypt A master_key nonce rk)]\<rparr> in
          if f CreateParticipant then ((200, Accepted None), d2)
          else
            ((200, Accepted (Some (\<lparr>t_room_id = rid,
                                    t_participant_id = Some (next_participant_id d),
                                    t_role = Host, t_device_id = t_device_id tok\<rparr>,
                                   next_participant_id d, rk))),
             d2\<lparr>participants := participants d @ [host_row rid (t_device_id tok) ip now d],
                next_participant_id := Suc (next_participant_id d)\<rparr>))"
      by (subst flip)
         (simp add: wrap Let_def Participant_create_participant_def accept_room_other_tables
            host_row_def)
    finally show ?thesis using False by simp
  qed
qed


lemmas accept_defs = accept_room_route_def Room_get_room_def Room_accept_room_def sql_update_def
  encrypt_room_key_def AESGCM_def aesgcm_encrypt_def nonce_ok_def
  Participant_create_participant_def no_faults_def Let_def

lemma get_room_other_tables [simp]:
  "Room_get_room rid g (d\<lparr>room_keys := ks\<rparr>) = Room_get_room rid g d"
  "Room_get_room rid g (d\<lparr>participants := ps\<rparr>) = Room_get_room rid g d"
  "Room_get_room rid g (d\<lparr>next_participant_id := n\<rparr>) = Room_get_room rid g d"
  by (simp_all add: Room_get_room_def)

subsection \<open>The invariant of the reachable states\<close>

lemma db_ok_accept: "db_ok d \<Longrightarrow> db_ok (snd (Room_accept_room rid now g d))"
  by (simp add: db_ok_def Room_accept_room_def Let_def ok_update)

lemma db_ok_close: "db_ok d \<Longrightarrow> db_ok (snd (Room_close_room rid now g d))"
  by (simp add: db_ok_def Room_close_room_def Let_def ok_update)

lemma db_ok_lock: "db_ok d \<Longrightarrow> db_ok (snd (Room_lock_room rid g d))"
  by (simp add: db_ok_def Room_lock_room_def Let_def ok_update)

lemma db_ok_unlock: "db_ok d \<Longrightarrow> db_ok (snd (Room_unlock_room rid g d))"
  by (simp add: db_ok_def Room_unlock_room_def Let_def ok_update)

lemma db_ok_archive: "db_ok d \<Longrightarrow> db_ok (snd (Room_archive_room rid key g d))"
  by (simp add: db_ok_def Room_archive_room_def Let_def ok_update)

lemma db_ok_remove: "db_ok d \<Longrightarrow> db_ok (snd (Participant_remove_participant pid g d))"
  by (simp add: db_ok_def Participant_remove_participant_def ok_filter)

lemma db_ok_cleanup:
  "db_ok d \<Longrightarrow> db_ok (snd (Participant_cleanup_inactive_participants rid ids g d))"
  by (simp add: db_ok_def Participant_cleanup_inactive_participants_def ok_filter)

lemma db_ok_set_name: "db_ok d \<Longrightarrow> db_ok (snd (Participant_set_display_name pid name g d))"
  by (simp add: db_ok_def Participant_set_display_name_def ok_rename)

lemma db_ok_message:
  "db_ok d \<Longrightarrow> db_ok (snd (Message_create_message rid pid ct nonce tag ty ip now g d))"
  by (simp add: db_ok_def Message_create_message_def Let_def)

lemma db_ok_create_participant:
  assumes "db_ok d" and "list_ex (\<lambda>r. room_id r = rid \<and> status r \<noteq> Pending) (rooms d)"
  shows "db_ok (snd (Participant_create_participant rid rl dev ip now g d))"
  using assms
  by (simp add: db_ok_def Participant_create_participant_def Let_def ok_add_participant)

lemma db_ok_other_tables:
  "db_ok d \<Longrightarrow> rooms d' = rooms d \<Longrightarrow> participants d' = participants d \<Longrightarrow> db_ok d'"
  by (simp add: db_ok_def)

lemma db_ok_create_room:
  "create_room_loop n i draws raises now d = Inr (row, d') \<Longrightarrow> db_ok d \<Longrightarrow> db_ok d'"
proof (induction n arbitrary: i)
  case 0
  then show ?case by simp
next
  case (Suc n)
  then show ?case
    by (auto simp: Let_def db_ok_def split: if_splits intro!: ok_add_room)
qed

lemma accepted_room_not_pending:
  assumes "fst (Room_accept_room rid now g d)"
  shows "list_ex (\<lambda>r. room_id r = rid \<and> status r \<noteq> Pending)
           (rooms (snd (Room_accept_room rid now g d)))"
proof -
  have "list_ex (\<lambda>r. room_id r = rid \<and> status r = Pending) rs \<Longrightarrow>
        list_ex (\<lambda>r. room_id r = rid \<and> status r \<noteq> Pending)
          (sql_update (\<lambda>r. room_id r = rid \<and> status r = Pending)
             (\<lambda>r. r\<lparr>status := Active, accepted_at := Some now,
                     expires_at := Some (now + 24 * 3600)\<rparr>) rs)" for rs
    by (induction rs) (auto simp: sql_update_def)
  with assms show ?thesis
    by (auto simp: Room_accept_room_def Let_def split: if_splits)
qed

lemma db_ok_accept_route:
  assumes "db_ok d"
  shows "db_ok (snd (accept_room_route A mk tok rid ip rk nonce now f d))"
proof -
  let ?acc = "Room_accept_room rid now (f AcceptRoom) d"
  have ok1: "db_ok (snd ?acc)" by (rule db_ok_accept [OF assms])
  have ok2: "db_ok (snd ?acc\<lparr>room_keys := ks\<rparr>)" for ks
    using ok1 by (simp add: db_ok_def)
  have ok3: "fst ?acc \<Longrightarrow>
      db_ok (snd (Participant_create_participant rid Host dev ip now g
                    (snd ?acc\<lparr>room_keys := ks\<rparr>)))" for ks dev g
    using accepted_room_not_pending [of rid now "f AcceptRoom" d]
    by (intro db_ok_create_participant ok2) simp
  show ?thesis
    using assms ok1 ok2 ok3
    by (auto simp: accept_room_route_def Let_def
        split: option.splits prod.splits bool.splits sum.splits if_splits)
       (metis snd_conv)+
qed


lemma found_room_not_pending:
  assumes "Room_get_room rid g d = Some room" and "status room \<noteq> Pending"
  shows "list_ex (\<lambda>r. room_id r = rid \<and> status r \<noteq> Pending) (rooms d)"
proof -
  from assms(1) have "find (\<lambda>r. room_id r = rid) (rooms d) = Some room"
    by (simp add: Room_get_room_def split: if_splits)
  from find_SomeD [OF this] assms(2) show ?thesis by (auto simp: list_ex_iff)
qed

lemma db_ok_join_route:
  assumes "db_ok d"
  shows "db_ok (snd (join_room_route A mk rid dev ip now f cm d))"
proof (cases "Room_get_room rid (f GetRoom) d")
  case None
  with assms show ?thesis by (simp add: join_room_route_def)
next
  case (Some room)
  show ?thesis
  proof (cases "status room = Active \<or> status room = Locked")
    case False
    with Some assms show ?thesis by (simp add: join_room_route_def)
  next
    case True
    then have "status room \<noteq> Pending" by auto
    from found_room_not_pending [OF Some this]
    have ex: "list_ex (\<lambda>r. room_id r = rid \<and> status r \<noteq> Pending) (rooms d)" .
    have ok1: "db_ok (snd (Participant_create_participant rid rl dev ip now g d))" for rl g
      by (rule db_ok_create_participant [OF assms ex])
    have ok2: "db_ok (snd (Room_lock_room rid g'
                 (snd (Participant_create_participant rid rl dev ip now g d))))" for rl g g'
      by (rule db_ok_lock [OF ok1])
    show ?thesis
      using assms ok1 ok2 Some True
      by (auto simp: join_room_route_def Let_def
          split: option.splits prod.splits if_splits)
         (metis snd_conv)+
  qed
qed

lemma db_ok_disconnect:
  assumes "db_ok d"
  shows "db_ok (snd (on_disconnect sess sid f cm d))"
proof -
  have ok1: "db_ok (snd (Participant_remove_participant pid g d))" for pid g
    by (rule db_ok_remove [OF assms])
  have ok2: "db_ok (snd (Participant_cleanup_inactive_participants rid ids g'
               (snd (Participant_remove_participant pid g d))))" for pid g rid ids g'
    by (rule db_ok_cleanup [OF ok1])
  have ok3: "db_ok (snd (Room_unlock_room rid g''
               (snd (Participant_cleanup_inactive_participants rid ids g'
                  (snd (Participant_remove_participant pid g d))))))" for pid g rid ids g' g''
    by (rule db_ok_unlock [OF ok2])
  show ?thesis
    using assms ok2 ok3
    by (auto simp: on_disconnect_def Let_def split_beta split: option.splits)
qed

lemma archive_service_db:
  "fst (snd (ArchiveService_archive_room A mk rid now stamp f up d st)) = d
   \<or> (\<exists>key g. fst (snd (ArchiveService_archive_room A mk rid now stamp f up d st))
                = snd (Room_archive_room rid key g d))"
  by (auto simp: ArchiveService_archive_room_def Let_def split_beta
      split: option.splits sum.splits bool.splits)

lemma db_ok_archive_service:
  "db_ok d \<Longrightarrow> db_ok (fst (snd (ArchiveService_archive_room A mk rid now stamp f up d st)))"
  using archive_service_db [of A mk rid now stamp f up d st]
  by (auto simp: db_ok_archive)

lemma db_ok_process_rooms:
  "db_ok d \<Longrightarrow> db_ok (fst (process_rooms A mk now stamp fs up rids d st))"
proof (induction rids arbitrary: d st)
  case Nil
  then show ?case by simp
next
  case (Cons rid rest)
  let ?c = "Room_close_room rid now (fs rid CloseRoom) d"
  have c: "db_ok (snd ?c)" by (rule db_ok_close [OF Cons.prems])
  let ?a = "ArchiveService_archive_room A mk rid now stamp (fs rid) (up rid) (snd ?c) st"
  have a: "db_ok (fst (snd ?a))" by (rule db_ok_archive_service [OF c])
  show ?case
  proof (cases "fst ?c")
    case True
    then have "process_rooms A mk now stamp fs up (rid # rest) d st
                 = process_rooms A mk now stamp fs up rest (fst (snd ?a)) (snd (snd ?a))"
      by (simp add: split_beta split: prod.splits bool.splits)
    with Cons.IH [OF a] show ?thesis by simp
  next
    case False
    then have "process_rooms A mk now stamp fs up (rid # rest) d st
                 = process_rooms A mk now stamp fs up rest (snd ?c) st"
      by (simp add: split_beta split: prod.splits bool.splits)
    with Cons.IH [OF c] show ?thesis by simp
  qed
qed

lemma sys_reachable_ok: "sys_reachable d \<Longrightarrow> db_ok d"
proof (induction rule: sys_reachable.induct)
  case init
  show ?case by (simp add: db_ok_def empty_db_def joined_rooms_ok_def)
next
  case (create d draws raises now row d')
  then show ?case by (auto simp: Room_create_room_def dest: db_ok_create_room)
next
  case (sweep d A mk now stamp g fs up st)
  then show ?case by (simp add: process_expired_rooms_def db_ok_process_rooms)
qed (simp_all add: db_ok_accept_route db_ok_join_route db_ok_disconnect db_ok_set_name
       db_ok_message db_ok_close)

lemma pending_room_has_no_participants:
  assumes "sys_reachable d" and "Room_get_room rid g d = Some room" and "status room = Pending"
  shows "filter (\<lambda>p. p_room_id p = rid) (participants d) = []"
proof -
  from assms(2) have "find (\<lambda>r. room_id r = rid) (rooms d) = Some room"
    by (simp add: Room_get_room_def split: if_splits)
  from find_SomeD [OF this] have r: "room \<in> set (rooms d)" "room_id room = rid" by simp_all
  from sys_reachable_ok [OF assms(1)]
  have dist: "distinct (map room_id (rooms d))"
    and ps: "\<forall>p\<in>set (participants d). \<exists>r\<in>set (rooms d). room_id r = p_room_id p \<and> status r \<noteq> Pending"
    by (auto simp: db_ok_def joined_rooms_ok_def list_all_iff list_ex_iff)
  have "p_room_id p \<noteq> rid" if "p \<in> set (participants d)" for p
  proof
    assume e: "p_room_id p = rid"
    from ps that obtain r' where r': "r' \<in> set (rooms d)" "room_id r' = p_room_id p"
      "status r' \<noteq> Pending" by blast
    from dist r r' e have "r' = room" by (auto simp: distinct_map inj_on_def)
    with r' assms(3) show False by simp
  qed
  then show ?thesis by (auto simp: filter_empty_conv)
qed


lemma example_room_id: "generate_room_id (example_draws 0) = ''Ab12''"
  by code_simp

lemma create_example:
  "Room_create_room example_draws (\<lambda>_. False) 100 empty_db = Inr (example_room, example_db)"
proof -
  have ten: "(10::nat) = Suc 9" by simp
  show ?thesis
    unfolding Room_create_room_def ten create_room_loop.simps
    by (simp add: example_room_id empty_db_def example_room_def example_db_def Let_def)
qed

lemma example_db_reachable: "sys_reachable example_db"
  by (rule sys_reachable.create [OF sys_reachable.init create_example])


subsection \<open>The archive key\<close>




subsection \<open>Joining\<close>



lemma decrypt_room_key_wrapped:
  assumes "aead_correct A" "length master_key = 32" "length nonce = 12"
  shows "decrypt_room_key A master_key (nonce @ gcm_encrypt A master_key nonce k) = Inr k"
  using assms
  by (simp add: decrypt_room_key_def Let_def AESGCM_def aesgcm_decrypt_def nonce_ok_def
      aead_correct_def)




lemma example_locked_lookup:
  "Room_get_room ''Ab12'' False example_locked_db = Some example_locked_room"
  "status example_locked_room = Active \<or> status example_locked_room = Locked"
  "\<not> expired 300 example_locked_room"
  "Participant_get_participant_by_device ''Ab12'' ''dev-x'' False example_locked_db = None"
  "Participant_count_participants ''Ab12'' False example_locked_db = 2"
  "get_connection_count ''Ab12'' empty_connection_manager = 0"
  by (simp_all add: Room_get_room_def example_locked_db_def example_locked_room_def
      example_room_def expired_def Participant_get_participant_by_device_def
      Participant_count_participants_def example_host_def example_guest_def host_row_def
      joined_row_def get_connection_count_def dict_get_def empty_connection_manager_def)






subsection \<open>Disconnecting\<close>

lemma dict_get_update [simp]: "dict_get (AList.update k v m) k = v"
  by (simp add: dict_get_def update_conv')

lemma dict_get_delete [simp]: "dict_get (AList.delete k m) k = []"
  by (simp add: dict_get_def delete_conv')

lemma delete_not_key: "k \<notin> fst ` set (AList.delete k al)"
  by (auto simp: AList.delete_eq)

lemma remove_connection_registered:
  assumes "map_of (sessions cm) sid = Some (rid, pid, rl)"
  shows "pid \<notin> set (map fst (dict_get (connections (snd (remove_connection sid cm))) rid))"
proof (cases "map_of (connections cm) rid")
  case None
  with assms show ?thesis by (simp add: remove_connection_def dict_get_def)
next
  case (Some room_conns)
  with assms show ?thesis
    by (simp add: remove_connection_def Let_def delete_not_key)
qed

lemma unlock_room_status:
  assumes "Room_get_room rid g d = Some room" and "status room = Locked"
  shows "map_option status (Room_get_room rid False (snd (Room_unlock_room rid False d)))
           = Some Active"
proof -
  from assms(1) have f: "find (\<lambda>r. room_id r = rid) (rooms d) = Some room"
    by (simp add: Room_get_room_def split: if_splits)
  have "find (\<lambda>r. room_id r = rid)
          (sql_update (\<lambda>r. room_id r = rid \<and> status r = Locked) (\<lambda>r. r\<lparr>status := Active\<rparr>)
             (rooms d))
        = Some (if room_id room = rid \<and> status room = Locked then room\<lparr>status := Active\<rparr>
                else room)"
    by (rule find_sql_update [OF f]) simp_all
  moreover from find_SomeD [OF f] have "room_id room = rid" by simp
  ultimately show ?thesis
    using assms(2) by (auto simp: Room_unlock_room_def Let_def Room_get_room_def)
qed

lemma example_cm_eq:
  "example_cm = \<lparr>connections = [(''Ab12'', [(Suc 0, ''sid-h''), (2, ''sid-g'')])],
                 sessions = [(''sid-h'', (''Ab12'', Suc 0, Host)), (''sid-g'', (''Ab12'', 2, Guest))]\<rparr>"
  by (simp add: example_cm_def add_connection_def empty_connection_manager_def dict_get_def)

lemma example_remove_connection:
  "remove_connection ''sid-g'' example_cm
     = (Some (''Ab12'', 2, Guest),
        \<lparr>connections = [(''Ab12'', [(Suc 0, ''sid-h'')])],
         sessions = [(''sid-h'', (''Ab12'', Suc 0, Host))]\<rparr>)"
  by (simp add: example_cm_eq remove_connection_def Let_def)

lemma example_disconnect:
  "on_disconnect example_guest_session ''sid-g'' no_faults example_cm example_locked_db
     = (\<lparr>connections = [(''Ab12'', [(Suc 0, ''sid-h'')])],
         sessions = [(''sid-h'', (''Ab12'', Suc 0, Host))]\<rparr>,
        example_active_db\<lparr>next_participant_id := 3\<rparr>)"
proof -
  let ?cm = "\<lparr>connections = [(''Ab12'', [(Suc 0, ''sid-h'')])],
              sessions = [(''sid-h'', (''Ab12'', Suc 0, Host))]\<rparr>"
  let ?d2 = "example_locked_db\<lparr>participants := [example_host]\<rparr>"
  have ids: "get_room_connections ''Ab12'' ?cm = [(Suc 0, ''sid-h'')]"
    by (simp add: get_room_connections_def dict_get_def)
  have pids: "p_id example_host = Suc 0" "p_id example_guest = 2"
    "p_room_id example_host = ''Ab12''" "p_room_id example_guest = ''Ab12''"
    by (simp_all add: example_host_def example_guest_def host_row_def joined_row_def
        example_db_def empty_db_def example_active_db_def)
  have rm: "Participant_remove_participant 2 False example_locked_db = (True, ?d2)"
    by (simp add: Participant_remove_participant_def example_locked_db_def pids)
  have cl: "Participant_cleanup_inactive_participants ''Ab12'' [Suc 0] False ?d2 = (0, ?d2)"
    by (simp add: Participant_cleanup_inactive_participants_def example_locked_db_def pids)
  have g: "Room_get_room ''Ab12'' False example_locked_db
             = Some (example_room\<lparr>status := Locked, accepted_at := Some 200,
                                   expires_at := Some 86600\<rparr>)"
    by (simp add: Room_get_room_def example_locked_db_def example_room_def)
  have ul: "snd (Room_unlock_room ''Ab12'' False ?d2) = example_active_db\<lparr>next_participant_id := 3\<rparr>"
    by (simp add: Room_unlock_room_def Let_def sql_update_def example_locked_db_def
        example_active_db_def example_room_def)
  show ?thesis
    by (simp add: on_disconnect_def example_guest_session_def example_remove_connection
        no_faults_def Let_def ids rm cl g ul)
qed

lemma on_disconnect_eq:
  assumes "s_room_id sess = Some rid" "rid \<noteq> []" "s_participant_id sess = Some pid" "pid \<noteq> 0"
  shows "on_disconnect sess sid f cm d =
     (let cm1 = snd (remove_connection sid cm);
          ids = map fst (get_room_connections rid cm1);
          d1 = snd (Participant_remove_participant pid (f RemoveParticipant) d);
          d2 = snd (Participant_cleanup_inactive_participants rid ids (f CleanupParticipants) d1)
      in (cm1,
          if length ids < 2 then
            (case Room_get_room rid (f GetRoom) d2 of
               None \<Rightarrow> d2
             | Some r \<Rightarrow> if status r = Locked then snd (Room_unlock_room rid (f UnlockRoom) d2)
                         else d2)
          else d2))"
  using assms
  by (simp add: on_disconnect_def Let_def split_beta cong: option.case_cong if_cong)

lemma disconnect_rows:
  "participants (snd (Participant_cleanup_inactive_participants rid
       (map fst (get_room_connections rid cm)) g2
       (snd (Participant_remove_participant pid g1 d))))
   = filter (\<lambda>p. (g1 \<or> p_id p \<noteq> pid)
                \<and> (g2 \<or> (p_room_id p = rid \<longrightarrow> is_participant_connected rid (p_id p) cm)))
       (participants d)"
  by (auto simp: Participant_cleanup_inactive_participants_def
      Participant_remove_participant_def is_participant_connected_def
      get_room_connections_def intro: filter_cong)

lemma disconnect_rooms:
  "rooms (snd (Participant_cleanup_inactive_participants rid ids g2
       (snd (Participant_remove_participant pid g1 d)))) = rooms d"
  by (simp add: Participant_cleanup_inactive_participants_def
      Participant_remove_participant_def)

lemma unlock_room_other_tables:
  "participants (snd (Room_unlock_room rid g d)) = participants d"
  "rooms (snd (Room_unlock_room rid True d)) = rooms d"
  by (simp_all add: Room_unlock_room_def Let_def)

lemma unlock_room_rooms:
  "rooms d = rooms e \<Longrightarrow>
   rooms (snd (Room_unlock_room rid g d)) = rooms (snd (Room_unlock_room rid g e))"
  by (simp add: Room_unlock_room_def Let_def)

lemma get_room_rooms:
  "rooms d = rooms e \<Longrightarrow> Room_get_room rid g d = Room_get_room rid g e"
  by (simp add: Room_get_room_def)

lemma example_guest_session_ok:
  "s_room_id example_guest_session = Some ''Ab12''" "''Ab12'' \<noteq> []"
  "s_participant_id example_guest_session = Some 2" "(2::nat) \<noteq> 0"
  by (simp_all add: example_guest_session_def)

lemma example_locked_rows:
  "participants example_locked_db = [example_host, example_guest]"
  "p_id example_host = Suc 0" "p_id example_guest = 2"
  "p_room_id example_host = ''Ab12''" "p_room_id example_guest = ''Ab12''"
  "map status (rooms example_locked_db) = [Locked]"
  by (simp_all add: example_locked_db_def example_host_def example_guest_def host_row_def
      joined_row_def example_db_def empty_db_def example_active_db_def example_room_def)

lemma example_disconnect_unlock_raises:
  "get_connection_count ''Ab12''
     (fst (on_disconnect example_guest_session ''sid-g'' (no_faults(UnlockRoom := True))
            example_cm example_locked_db)) = 1"
  "map status (rooms (snd (on_disconnect example_guest_session ''sid-g''
            (no_faults(UnlockRoom := True)) example_cm example_locked_db))) = [Locked]"
proof -
  let ?f = "no_faults(UnlockRoom := True)"
  note eq = on_disconnect_eq [where f = ?f and sid = "''sid-g''" and cm = example_cm
      and d = example_locked_db, OF example_guest_session_ok]
  show "get_connection_count ''Ab12''
     (fst (on_disconnect example_guest_session ''sid-g'' ?f example_cm example_locked_db)) = 1"
    by (simp add: eq Let_def example_remove_connection get_connection_count_def dict_get_def)
  show "map status (rooms (snd (on_disconnect example_guest_session ''sid-g'' ?f
            example_cm example_locked_db))) = [Locked]"
    by (simp add: eq Let_def disconnect_rooms unlock_room_other_tables example_locked_rows
        split: option.split)
qed

lemma example_disconnect_deletes_raise:
  "\<not> is_participant_connected ''Ab12'' 2
      (fst (on_disconnect example_guest_session ''sid-g''
             (no_faults(RemoveParticipant := True, CleanupParticipants := True))
             example_cm example_locked_db))"
  "map p_id (participants (snd (on_disconnect example_guest_session ''sid-g''
             (no_faults(RemoveParticipant := True, CleanupParticipants := True))
             example_cm example_locked_db))) = [1, 2]"
proof -
  let ?f = "no_faults(RemoveParticipant := True, CleanupParticipants := True)"
  note eq = on_disconnect_eq [where f = ?f and sid = "''sid-g''" and cm = example_cm
      and d = example_locked_db, OF example_guest_session_ok]
  show "\<not> is_participant_connected ''Ab12'' 2
      (fst (on_disconnect example_guest_session ''sid-g'' ?f example_cm example_locked_db))"
    by (simp add: eq Let_def example_remove_connection is_participant_connected_def
        dict_get_def)
  show "map p_id (participants (snd (on_disconnect example_guest_session ''sid-g'' ?f
             example_cm example_locked_db))) = [1, 2]"
    by (simp add: eq Let_def disconnect_rows unlock_room_other_tables example_locked_rows
        split: option.split)
qed

subsection \<open>Archival\<close>

lemma archive_room_eq:
  assumes "Room_get_room rid (f GetRoom) d = Some room"
    and "select_room_key rid (f SelectRoomKey) d = Some enc" "enc \<noteq> []"
    and "decrypt_room_key A mk enc = Inr rk"
  shows "ArchiveService_archive_room A mk rid now stamp f outcome d st =
     (let ps = Participant_get_room_participants rid (f GetRoomParticipants) d;
          ms = map (archive_message A rk)
                 (Message_get_room_messages rid 10000 (f GetRoomMessages) d);
          doc = \<lparr>ad_room = room, ad_participants = ps, ad_messages = ms, ad_archived_at = now,
                  ad_message_count = length ms, ad_participant_count = length ps\<rparr>;
          key = archive_object_key rid stamp
      in if outcome = Stored then
           (fst (Room_archive_room rid key (f ArchiveRoom) d),
            snd (Room_archive_room rid key (f ArchiveRoom) d),
            AList.update key doc st)
         else (False, d, st))"
  using assms
  by (cases outcome)
     (simp_all add: ArchiveService_archive_room_def Let_def store_archive_def split_beta)

lemma archive_room_status:
  assumes "Room_get_room rid g d = Some room" and "status room = Closed"
  shows "fst (Room_archive_room rid key False d)"
    and "map_option status (Room_get_room rid False (snd (Room_archive_room rid key False d)))
           = Some Archived"
proof -
  from assms(1) have f: "find (\<lambda>r. room_id r = rid) (rooms d) = Some room"
    by (simp add: Room_get_room_def split: if_splits)
  from find_SomeD [OF f] have r: "room_id room = rid" "room \<in> set (rooms d)" by simp_all
  with assms(2) have "list_ex (\<lambda>r. room_id r = rid \<and> status r = Closed) (rooms d)"
    by (auto simp: list_ex_iff)
  then show "fst (Room_archive_room rid key False d)"
    by (simp add: Room_archive_room_def Let_def)
  have "find (\<lambda>r. room_id r = rid)
          (sql_update (\<lambda>r. room_id r = rid \<and> status r = Closed)
             (\<lambda>r. r\<lparr>status := Archived, archive_key := Some key\<rparr>) (rooms d))
        = Some (if room_id room = rid \<and> status room = Closed
                then room\<lparr>status := Archived, archive_key := Some key\<rparr> else room)"
    by (rule find_sql_update [OF f]) simp_all
  with r assms(2)
  show "map_option status (Room_get_room rid False (snd (Room_archive_room rid key False d)))
          = Some Archived"
    by (simp add: Room_archive_room_def Let_def Room_get_room_def)
qed

lemma archive_message_cases:
  "(case decrypt_message A rk (m_body_ct msg) (m_nonce msg) (m_tag msg) of
      Inr text \<Rightarrow> am_message (archive_message A rk msg) = text
                 \<and> am_error (archive_message A rk msg) = None
    | Inl e \<Rightarrow> am_message (archive_message A rk msg) = DECRYPTION_FAILED
              \<and> am_error (archive_message A rk msg) = Some e)
   \<and> am_id (archive_message A rk msg) = m_id msg
   \<and> am_created_at (archive_message A rk msg) = m_created_at msg"
  by (simp add: archive_message_def split: sum.splits)

lemma example_hi_encoded: "utf8_encode example_hi = Some example_hi_bytes"
  by (simp add: example_hi_def example_hi_bytes_def encode_cp_def)

lemma example_decrypt_ok:
  "decrypt_message toy_aead (replicate 32 3) (take 2 example_sealed) (replicate 12 5)
     (drop 2 example_sealed) = Inr example_hi"
  using toy_aead_correct utf8_roundtrip [OF example_hi_encoded]
  by (simp add: decrypt_message_def AESGCM_def aesgcm_decrypt_def nonce_ok_def Let_def
      example_sealed_def aead_correct_def example_hi_bytes_def)

lemma example_decrypt_bad:
  "decrypt_message toy_aead (replicate 32 3) (take 2 example_sealed) (replicate 12 5) []
     = Inl InvalidTag"
proof -
  have "length (take 2 example_sealed) < 16" by (simp add: min_def)
  then show ?thesis
    by (simp add: decrypt_message_def AESGCM_def aesgcm_decrypt_def nonce_ok_def Let_def
        del: length_take)
qed

lemma example_closed_key:
  "select_room_key ''Ab12'' False example_closed_db = Some example_wrapped_key"
  "example_wrapped_key \<noteq> []"
  "decrypt_room_key toy_aead (replicate 32 1) example_wrapped_key = Inr (replicate 32 3)"
  using decrypt_room_key_wrapped [OF toy_aead_correct, of "replicate 32 1" "replicate 12 2"
      "replicate 32 3"]
  by (simp_all add: select_room_key_def example_closed_db_def example_locked_db_def
      example_active_db_def example_wrapped_key_def)

lemma example_closed_rows:
  "Message_get_room_messages ''Ab12'' 10000 False example_closed_db
     = [message.extend example_message_ok (message_row.fields None (Some Host)),
        message.extend example_message_bad (message_row.fields None (Some Guest))]"
  by (simp add: Message_get_room_messages_def example_closed_db_def example_locked_db_def
      example_message_ok_def example_message_bad_def join_participant_def example_host_def
      example_guest_def host_row_def joined_row_def example_active_db_def example_db_def
      empty_db_def)


lemma example_archive_message:
  "archive_message toy_aead (replicate 32 3)
     (message.extend example_message_ok (message_row.fields None (Some Host)))
   = \<lparr>am_id = 1, am_participant_id = 1, am_display_name = None, am_role = Some Host,
      am_created_at = 260, am_message = example_hi, am_msg_type = ''text'',
      am_ip_address = None, am_error = None\<rparr>"
  "archive_message toy_aead (replicate 32 3)
     (message.extend example_message_bad (message_row.fields None (Some Guest)))
   = \<lparr>am_id = 2, am_participant_id = 2, am_display_name = None, am_role = Some Guest,
      am_created_at = 270, am_message = DECRYPTION_FAILED, am_msg_type = ''text'',
      am_ip_address = None, am_error = Some InvalidTag\<rparr>"
  using example_decrypt_ok example_decrypt_bad
  by (simp_all add: archive_message_def example_message_ok_def example_message_bad_def
      message.defs message_row.defs)

lemma example_first_sweep:
  "process_expired_rooms toy_aead (replicate 32 1) 90000 ''20240102_010000'' False
     no_room_faults (upload_always S3Error) example_active_db []
   = (example_unarchived_db, [])"
proof -
  have ex: "Room_get_expired_rooms 90000 False example_active_db = [''Ab12'']"
    by (simp add: Room_get_expired_rooms_def expired_def example_active_db_def
        example_room_def)
  have cl: "Room_close_room ''Ab12'' 90000 False example_active_db
              = (True, example_unarchived_db)"
    by (simp add: Room_close_room_def Let_def sql_update_def example_unarchived_db_def
        example_closed_room_def example_active_db_def example_db_def example_room_def)
  have g: "Room_get_room ''Ab12'' (no_faults GetRoom) example_unarchived_db
             = Some example_closed_room"
    by (simp add: Room_get_room_def no_faults_def example_unarchived_db_def
        example_closed_room_def example_room_def)
  have k: "select_room_key ''Ab12'' (no_faults SelectRoomKey) example_unarchived_db
             = Some example_wrapped_key"
    by (simp add: select_room_key_def no_faults_def example_unarchived_db_def
        example_active_db_def)
  have ar: "ArchiveService_archive_room toy_aead (replicate 32 1) ''Ab12'' 90000
              ''20240102_010000'' no_faults S3Error example_unarchived_db []
            = (False, example_unarchived_db, [])"
    by (simp add: archive_room_eq [where f = no_faults, OF g k example_closed_key(2,3)]
        Let_def)
  show ?thesis
    by (simp add: process_expired_rooms_def ex no_room_faults_def upload_always_def
        no_faults_applied cl ar)
qed

lemma example_second_sweep:
  "process_expired_rooms toy_aead (replicate 32 1) 90060 ''20240102_010100'' False
     no_room_faults (upload_always Stored) example_unarchived_db []
   = (example_unarchived_db, [])"
proof -
  have ex: "Room_get_expired_rooms 90060 False example_unarchived_db = []"
    by (simp add: Room_get_expired_rooms_def example_unarchived_db_def
        example_closed_room_def)
  show ?thesis
    by (simp add: process_expired_rooms_def ex)
qed

lemma get_room_messages_length:
  "length (Message_get_room_messages rid limit False d)
     = min limit (Message_count_room_messages rid False d)"
  by (simp add: Message_get_room_messages_def Message_count_room_messages_def min.commute)

lemma example_big_count: "Message_count_room_messages ''Ab12'' False example_big_db = 10001"
proof -
  have "filter (\<lambda>m. m_room_id m = ''Ab12'') (map example_numbered_message xs)
          = map example_numbered_message xs" for xs
    by (induction xs) (simp_all add: example_numbered_message_def example_message_bad_def)
  then show ?thesis
    by (simp add: Message_count_room_messages_def example_big_db_def)
qed

lemma join_participant_created_at [simp]:
  "m_created_at (join_participant ps m) = m_created_at m"
  by (simp add: join_participant_def message.defs split: option.splits)

lemma archive_message_created_at:
  "map am_created_at (map (archive_message A rk) rows) = map m_created_at rows"
  by (induction rows) (simp_all add: archive_message_def split: sum.splits)

lemma get_room_messages_sorted:
  "sorted (map m_created_at (Message_get_room_messages rid limit g d))"
proof (cases g)
  case True
  then show ?thesis by (simp add: Message_get_room_messages_def)
next
  case False
  have "map m_created_at (Message_get_room_messages rid limit False d)
          = take limit (map m_created_at
              (sort_key m_created_at (filter (\<lambda>m. m_room_id m = rid) (messages d))))"
    by (simp add: Message_get_room_messages_def take_map o_def)
  with False show ?thesis
    by (simp add: sorted_wrt_take)
qed

lemma example_big_archive:
  "fst (ArchiveService_archive_room toy_aead (replicate 32 1) ''Ab12'' 90010
          ''20240102_010010'' no_faults Stored example_big_db [])"
  "map_option ad_message_count
        (get_archive (archive_object_key ''Ab12'' ''20240102_010010'')
           (snd (snd (ArchiveService_archive_room toy_aead (replicate 32 1) ''Ab12'' 90010
              ''20240102_010010'' no_faults Stored example_big_db []))))
       = Some 10000"
proof -
  have g: "Room_get_room ''Ab12'' (no_faults GetRoom) example_big_db
             = Some example_closed_room"
    "status example_closed_room = Closed"
    by (simp_all add: Room_get_room_def no_faults_def example_big_db_def
        example_closed_db_def example_closed_room_def example_room_def)
  have k: "select_room_key ''Ab12'' (no_faults SelectRoomKey) example_big_db
             = Some example_wrapped_key"
    using example_closed_key(1)
    by (simp add: select_room_key_def no_faults_def example_big_db_def)
  have len: "length (Message_get_room_messages ''Ab12'' 10000 False example_big_db) = 10000"
    by (simp add: get_room_messages_length example_big_count)
  have ok: "fst (Room_archive_room ''Ab12'' key False example_big_db)" for key
    by (rule archive_room_status(1) [OF g])
  note eq = archive_room_eq [where f = no_faults, OF g(1) k example_closed_key(2,3)]
  show "fst (ArchiveService_archive_room toy_aead (replicate 32 1) ''Ab12'' 90010
          ''20240102_010010'' no_faults Stored example_big_db [])"
    by (simp add: eq Let_def no_faults_applied ok)
  show "map_option ad_message_count
        (get_archive (archive_object_key ''Ab12'' ''20240102_010010'')
           (snd (snd (ArchiveService_archive_room toy_aead (replicate 32 1) ''Ab12'' 90010
              ''20240102_010010'' no_faults Stored example_big_db []))))
       = Some 10000"
    by (simp add: eq Let_def no_faults_applied get_archive_def update_conv' len)
qed

lemma example_read_raises_archive:
  "fst (ArchiveService_archive_room toy_aead (replicate 32 1) ''Ab12'' 90010
          ''20240102_010010'' (no_faults(GetRoomMessages := True)) Stored example_closed_db [])"
  "map_option ad_messages
        (get_archive (archive_object_key ''Ab12'' ''20240102_010010'')
           (snd (snd (ArchiveService_archive_room toy_aead (replicate 32 1) ''Ab12'' 90010
              ''20240102_010010'' (no_faults(GetRoomMessages := True)) Stored
              example_closed_db []))))
       = Some []"
  "map status (rooms (fst (snd (ArchiveService_archive_room toy_aead (replicate 32 1) ''Ab12''
              90010 ''20240102_010010'' (no_faults(GetRoomMessages := True)) Stored
              example_closed_db [])))) = [Archived]"
  "Message_count_room_messages ''Ab12'' False example_closed_db = 2"
proof -
  let ?f = "no_faults(GetRoomMessages := True)"
  have g: "Room_get_room ''Ab12'' (?f GetRoom) example_closed_db = Some example_closed_room"
    "status example_closed_room = Closed"
    by (simp_all add: Room_get_room_def no_faults_def 
        example_closed_db_def example_closed_room_def example_room_def)
  have k: "select_room_key ''Ab12'' (?f SelectRoomKey) example_closed_db
             = Some example_wrapped_key"
    using example_closed_key(1) by (simp add: no_faults_def)
  have ok: "fst (Room_archive_room ''Ab12'' key False example_closed_db)" for key
    by (rule archive_room_status(1) [OF g])
  have rs: "map status (rooms (snd (Room_archive_room ''Ab12'' key False example_closed_db)))
              = [Archived]" for key
    by (simp add: Room_archive_room_def Let_def sql_update_def example_closed_db_def
        example_closed_room_def example_room_def)
  have ms: "Message_get_room_messages ''Ab12'' 10000 True example_closed_db = []"
    by (simp add: Message_get_room_messages_def)
  note eq = archive_room_eq [where f = ?f, OF g(1) k example_closed_key(2,3)]
  show "fst (ArchiveService_archive_room toy_aead (replicate 32 1) ''Ab12'' 90010
          ''20240102_010010'' ?f Stored example_closed_db [])"
    by (simp add: eq Let_def no_faults_applied ok)
  show "map_option ad_messages
        (get_archive (archive_object_key ''Ab12'' ''20240102_010010'')
           (snd (snd (ArchiveService_archive_room toy_aead (replicate 32 1) ''Ab12'' 90010
              ''20240102_010010'' ?f Stored example_closed_db []))))
       = Some []"
    by (simp add: eq Let_def no_faults_applied get_archive_def update_conv' ms)
  show "map status (rooms (fst (snd (ArchiveService_archive_room toy_aead (replicate 32 1)
              ''Ab12'' 90010 ''20240102_010010'' ?f Stored example_closed_db [])))) = [Archived]"
    by (simp add: eq Let_def no_faults_applied rs)
  show "Message_count_room_messages ''Ab12'' False example_closed_db = 2"
    by (simp add: Message_count_room_messages_def example_closed_db_def
        example_message_ok_def example_message_bad_def)
qed

section \<open>Verified properties\<close>

subsection \<open>Crypto kernel\<close>

text \<open>
  Claim C3. For every 32-byte room key, every 12-byte nonce drawn by \<open>encrypt_message\<close>
  and every string of Unicode scalar values (the strings that have a UTF-8 encoding),
  \<open>encrypt_message\<close> returns a triple \<open>(ct, nonce, tag)\<close>; the sealed AEAD output is
  \<open>ct\<close> followed by \<open>tag\<close>, \<open>tag\<close> is its last 16 bytes, and \<open>decrypt_message\<close> on the
  triple returns the original plaintext.
\<close>

theorem message_roundtrip:
  assumes A: "aead_correct A"
    and k: "length room_key = 32"
    and n: "length nonce = 12"
    and p: "list_all scalar_value plaintext"
  shows "\<exists>ct tag data.
           utf8_encode plaintext = Some data
         \<and> encrypt_message A room_key nonce plaintext = Inr (ct, nonce, tag)
         \<and> ct @ tag = gcm_encrypt A room_key nonce data
         \<and> length tag = 16
         \<and> decrypt_message A room_key ct nonce tag = Inr plaintext"
proof -
  from utf8_encode_total [OF p] obtain data where d: "utf8_encode plaintext = Some data" ..
  define sealed where "sealed = gcm_encrypt A room_key nonce data"
  define ct where "ct = take (length sealed - 16) sealed"
  define tag where "tag = drop (length sealed - 16) sealed"
  have len: "length sealed = length data + 16"
    using A by (simp add: aead_correct_def sealed_def)
  have opn: "gcm_decrypt A room_key nonce sealed = Some data"
    using A by (simp add: aead_correct_def sealed_def)
  have key: "AESGCM room_key = Inr room_key" by (simp add: AESGCM_def k)
  have nok: "nonce_ok nonce" by (simp add: nonce_ok_def n)
  have enc: "encrypt_message A room_key nonce plaintext = Inr (ct, nonce, tag)"
    by (simp add: encrypt_message_def key d aesgcm_encrypt_def nok Let_def ct_def tag_def
        sealed_def)
  have join: "ct @ tag = sealed" by (simp add: ct_def tag_def)
  have tl: "length tag = 16" by (simp add: tag_def len)
  have dec: "decrypt_message A room_key ct nonce tag = Inr plaintext"
    by (simp add: decrypt_message_def key Let_def join aesgcm_decrypt_def nok len opn
        utf8_roundtrip [OF d])
  from d enc join tl dec show ?thesis by (auto simp: sealed_def)
qed

theorem message_roundtrip_witness:
  "\<exists>ct tag. encrypt_message toy_aead (replicate 32 7) (replicate 12 9) [0x68, 0xE9, 0x20AC, 0x1F600]
              = Inr (ct, replicate 12 9, tag)
     \<and> length tag = 16
     \<and> decrypt_message toy_aead (replicate 32 7) ct (replicate 12 9) tag
         = Inr [0x68, 0xE9, 0x20AC, 0x1F600]"
  using message_roundtrip [OF toy_aead_correct, of "replicate 32 7" "replicate 12 9"
      "[0x68, 0xE9, 0x20AC, 0x1F600]"]
  by (simp add: scalar_value_def is_surrogate_def) blast

text \<open>
  Claim C8. For every 32-byte key \<open>k\<close> (and 32-byte master key, 12-byte nonce), the wrapped
  blob is the nonce followed by the AEAD seal of \<open>k\<close> under the master key, and
  \<open>decrypt_room_key\<close>, which splits the blob at byte 12, returns \<open>k\<close>.
\<close>

theorem room_key_roundtrip:
  assumes A: "aead_correct A"
    and m: "length master_key = 32"
    and n: "length nonce = 12"
    and k: "length k = 32"
  shows "encrypt_room_key A master_key nonce k
           = Inr (nonce @ gcm_encrypt A master_key nonce k)
       \<and> decrypt_room_key A master_key (nonce @ gcm_encrypt A master_key nonce k) = Inr k"
proof -
  have key: "AESGCM master_key = Inr master_key" by (simp add: AESGCM_def m)
  have nok: "nonce_ok nonce" by (simp add: nonce_ok_def n)
  have len: "length (gcm_encrypt A master_key nonce k) = length k + 16"
    using A by (simp add: aead_correct_def)
  have opn: "gcm_decrypt A master_key nonce (gcm_encrypt A master_key nonce k) = Some k"
    using A by (simp add: aead_correct_def)
  have enc: "encrypt_room_key A master_key nonce k
               = Inr (nonce @ gcm_encrypt A master_key nonce k)"
    by (simp add: encrypt_room_key_def key aesgcm_encrypt_def nok)
  have dec: "decrypt_room_key A master_key (nonce @ gcm_encrypt A master_key nonce k) = Inr k"
    by (simp add: decrypt_room_key_def Let_def key n aesgcm_decrypt_def nok len opn)
  from enc dec show ?thesis by simp
qed

theorem room_key_roundtrip_witness:
  "decrypt_room_key toy_aead (replicate 32 1)
     (projr (encrypt_room_key toy_aead (replicate 32 1) (replicate 12 2) (replicate 32 3)))
   = Inr (replicate 32 3)"
  using room_key_roundtrip [OF toy_aead_correct, of "replicate 32 1" "replicate 12 2"
      "replicate 32 3"]
  by simp

subsection \<open>Room lifecycle\<close>




subsection \<open>Accepting a room\<close>

text \<open>
  Claim C1, as stated, fails: the accept handler makes its three writes in three
  transactions. When the insertion of the wrapped key raises, the handler answers 500 and
  the room is already \<open>active\<close>, with no key and no participant.
\<close>

theorem accept_not_atomic_counterexample:
  "accept_room_route toy_aead (replicate 32 1) example_host_token ''Ab12'' ''10.0.0.1''
      (replicate 32 3) (replicate 12 2) 200 (no_faults(InsertRoomKey := True)) example_db
   = ((500, Error ''Internal server error''),
      example_db\<lparr>rooms := [example_room\<lparr>status := Active, accepted_at := Some 200,
                             expires_at := Some 86600\<rparr>]\<rparr>)"
  by (simp add: accept_defs example_db_def example_room_def example_host_token_def empty_db_def)


text \<open>
  Claim C1, amended. Accepting a pending room with a valid host token makes the status
  flip, the wrapped-key insertion and the host-participant insertion as three separately
  committed writes, in this order; a write that fails keeps the later ones from running
  and leaves the earlier ones in place. If the flip fails, the answer is 500 and the
  database is unchanged (the room stays \<open>pending\<close>). If the key insertion fails, the
  answer is 500 and the room is \<open>active\<close> with no key and no participant added. If the
  participant insertion fails, the answer is 200 and the room is \<open>active\<close> with its
  wrapped key and no participant added. If none fails, all three are persisted.
\<close>

theorem accept_steps_commit_separately:
  assumes tok: "t_room_id tok = rid" "t_role tok = Host"
    and room: "Room_get_room rid (f GetRoom) d = Some room" "status room = Pending"
    and keys: "length master_key = 32" "length nonce = 12"
  shows "case accept_room_route A master_key tok rid ip rk nonce now f d of
           ((code, reply), d') \<Rightarrow>
             (f AcceptRoom \<longrightarrow> code = 500 \<and> d' = d)
           \<and> (\<not> f AcceptRoom \<and> f InsertRoomKey \<longrightarrow>
                code = 500
              \<and> map_option status (Room_get_room rid False d') = Some Active
              \<and> room_keys d' = room_keys d
              \<and> participants d' = participants d)
           \<and> (\<not> f AcceptRoom \<and> \<not> f InsertRoomKey \<and> f CreateParticipant \<longrightarrow>
                code = 200
              \<and> map_option status (Room_get_room rid False d') = Some Active
              \<and> room_keys d' = room_keys d @ [(rid, nonce @ gcm_encrypt A master_key nonce rk)]
              \<and> participants d' = participants d)
           \<and> (\<not> f AcceptRoom \<and> \<not> f InsertRoomKey \<and> \<not> f CreateParticipant \<longrightarrow>
                code = 200
              \<and> map_option status (Room_get_room rid False d') = Some Active
              \<and> room_keys d' = room_keys d @ [(rid, nonce @ gcm_encrypt A master_key nonce rk)]
              \<and> participants d' = participants d @ [host_row rid (t_device_id tok) ip now d])"
proof -
  note st = accept_room_status [OF room, of now]
  show ?thesis
    by (simp add: accept_room_route_eq [where f = f, OF tok room keys] Let_def st
        accept_room_other_tables)
qed

theorem accept_steps_commit_separately_witness:
  "fst (fst (accept_room_route toy_aead (replicate 32 1) example_host_token ''Ab12'' ''10.0.0.1''
               (replicate 32 3) (replicate 12 2) 200 no_faults example_db)) = 200
   \<and> map status (rooms (snd (accept_room_route toy_aead (replicate 32 1) example_host_token
               ''Ab12'' ''10.0.0.1'' (replicate 32 3) (replicate 12 2) 200 no_faults
               example_db))) = [Active]
   \<and> map fst (room_keys (snd (accept_room_route toy_aead (replicate 32 1) example_host_token
               ''Ab12'' ''10.0.0.1'' (replicate 32 3) (replicate 12 2) 200 no_faults
               example_db))) = [''Ab12'']
   \<and> map p_role (participants (snd (accept_room_route toy_aead (replicate 32 1)
               example_host_token ''Ab12'' ''10.0.0.1'' (replicate 32 3) (replicate 12 2) 200
               no_faults example_db))) = [Host]"
proof -
  have h: "Room_get_room ''Ab12'' (no_faults GetRoom) example_db = Some example_room"
    "status example_room = Pending"
    "t_room_id example_host_token = ''Ab12''" "t_role example_host_token = Host"
    "length (replicate 32 (1::byte)) = 32" "length (replicate 12 (2::byte)) = 12"
    by (simp_all add: Room_get_room_def no_faults_def example_db_def example_room_def
        example_host_token_def)
  from accept_steps_commit_separately [where f = no_faults and A = toy_aead
      and ip = "''10.0.0.1''" and rk = "replicate 32 3" and now = 200, OF h(3,4,1,2,5,6)]
  show ?thesis
    by (simp add: no_faults_def split_beta host_row_def)
       (simp add: accept_defs example_db_def example_room_def example_host_token_def
          empty_db_def)
qed


text \<open>
  Claim C10. In a reachable state, when the status flip and the wrapped-key insertion of
  an accept succeed and the host-participant insertion returns no row, the endpoint
  answers 200 with \<open>{success: true, status: 'active'}\<close> and nothing else
  (\<open>Accepted None\<close>), and leaves the room \<open>active\<close>, with a stored wrapped key and
  zero participants.
\<close>

theorem accept_without_host_participant:
  assumes reach: "sys_reachable d"
    and tok: "t_room_id tok = rid" "t_role tok = Host"
    and room: "Room_get_room rid (f GetRoom) d = Some room" "status room = Pending"
    and keys: "length master_key = 32" "length nonce = 12"
    and flt: "\<not> f AcceptRoom" "\<not> f InsertRoomKey" "f CreateParticipant"
  shows "\<exists>d'. accept_room_route A master_key tok rid ip rk nonce now f d
                = ((200, Accepted None), d')
            \<and> map_option status (Room_get_room rid False d') = Some Active
            \<and> room_keys d' = room_keys d @ [(rid, nonce @ gcm_encrypt A master_key nonce rk)]
            \<and> select_room_key rid False d' \<noteq> None
            \<and> Participant_count_participants rid False d' = 0"
proof -
  let ?d1 = "snd (Room_accept_room rid now False d)"
  let ?d2 = "?d1\<lparr>room_keys := room_keys d @ [(rid, nonce @ gcm_encrypt A master_key nonce rk)]\<rparr>"
  have eq: "accept_room_route A master_key tok rid ip rk nonce now f d
              = ((200, Accepted None), ?d2)"
    by (simp add: accept_room_route_eq [where f = f, OF tok room keys] flt Let_def)
  have st: "map_option status (Room_get_room rid False ?d2) = Some Active"
    using accept_room_status [OF room, of now] by simp
  have ks: "room_keys ?d2 = room_keys d @ [(rid, nonce @ gcm_encrypt A master_key nonce rk)]"
    by simp
  have "find (\<lambda>kv. fst kv = rid) (ks @ [(rid, v)]) \<noteq> None" for ks :: "(room_id \<times> bytes) list" and v
    by (induction ks) auto
  then have sel: "select_room_key rid False ?d2 \<noteq> None"
    by (simp add: select_room_key_def)
  have cnt: "Participant_count_participants rid False ?d2 = 0"
    by (simp add: Participant_count_participants_def accept_room_other_tables
        pending_room_has_no_participants [OF reach room])
  from eq st ks sel cnt show ?thesis by blast
qed

theorem accept_without_host_participant_witness:
  "accept_room_route toy_aead (replicate 32 1) example_host_token ''Ab12'' ''10.0.0.1''
      (replicate 32 3) (replicate 12 2) 200 (no_faults(CreateParticipant := True)) example_db
   = ((200, Accepted None),
      example_db\<lparr>rooms := [example_room\<lparr>status := Active, accepted_at := Some 200,
                             expires_at := Some 86600\<rparr>],
          room_keys := [(''Ab12'', replicate 12 2
                           @ gcm_encrypt toy_aead (replicate 32 1) (replicate 12 2)
                               (replicate 32 3))]\<rparr>)
   \<and> Participant_count_participants ''Ab12'' False
        (snd (accept_room_route toy_aead (replicate 32 1) example_host_token ''Ab12''
           ''10.0.0.1'' (replicate 32 3) (replicate 12 2) 200
           (no_faults(CreateParticipant := True)) example_db)) = 0"
proof -
  let ?f = "no_faults(CreateParticipant := True)"
  have h: "Room_get_room ''Ab12'' (?f GetRoom) example_db = Some example_room"
    "status example_room = Pending"
    "t_room_id example_host_token = ''Ab12''" "t_role example_host_token = Host"
    "length (replicate 32 (1::byte)) = 32" "length (replicate 12 (2::byte)) = 12"
    "\<not> ?f AcceptRoom" "\<not> ?f InsertRoomKey" "?f CreateParticipant"
    by (simp_all add: Room_get_room_def no_faults_def example_db_def example_room_def
        example_host_token_def)
  have ev: "accept_room_route toy_aead (replicate 32 1) example_host_token ''Ab12'' ''10.0.0.1''
      (replicate 32 3) (replicate 12 2) 200 ?f example_db
   = ((200, Accepted None),
      example_db\<lparr>rooms := [example_room\<lparr>status := Active, accepted_at := Some 200,
                             expires_at := Some 86600\<rparr>],
          room_keys := [(''Ab12'', replicate 12 2
                           @ gcm_encrypt toy_aead (replicate 32 1) (replicate 12 2)
                               (replicate 32 3))]\<rparr>)"
    by (simp add: accept_defs example_db_def example_room_def example_host_token_def
        empty_db_def)
  from accept_without_host_participant [where f = ?f and A = toy_aead
      and ip = "''10.0.0.1''" and rk = "replicate 32 3" and now = 200,
      OF example_db_reachable h(3,4,1,2,5,6,7,8,9)]
  show ?thesis
    unfolding ev by auto
qed


subsection \<open>Joining a room\<close>




subsection \<open>Disconnecting\<close>

text \<open>
  Claim C7, as stated, fails when a database call of the handler raises, because the
  model methods swallow the exception. A guest disconnects from a \<open>locked\<close> room with
  two live connections: when the update of \<open>unlock_room\<close> raises, the room stays
  \<open>locked\<close> with 1 live connection; when the \<open>DELETE\<close> of \<open>remove_participant\<close> and
  that of \<open>cleanup_inactive_participants\<close> raise, the participant is gone from the
  registry and their row stays.
\<close>

theorem disconnect_counterexample:
  "get_connection_count ''Ab12''
     (fst (on_disconnect example_guest_session ''sid-g'' (no_faults(UnlockRoom := True))
            example_cm example_locked_db)) = 1
   \<and> map status (rooms (snd (on_disconnect example_guest_session ''sid-g''
            (no_faults(UnlockRoom := True)) example_cm example_locked_db))) = [Locked]
   \<and> \<not> is_participant_connected ''Ab12'' 2
      (fst (on_disconnect example_guest_session ''sid-g''
             (no_faults(RemoveParticipant := True, CleanupParticipants := True))
             example_cm example_locked_db))
   \<and> map p_id (participants (snd (on_disconnect example_guest_session ''sid-g''
             (no_faults(RemoveParticipant := True, CleanupParticipants := True))
             example_cm example_locked_db))) = [1, 2]"
  by (intro conjI example_disconnect_unlock_raises example_disconnect_deletes_raise)

text \<open>
  Claim C7, amended. When the disconnect handler runs for a connected participant (the
  socket's session is in the registry under the room and participant of its Flask
  session), whichever database calls raise: the registry is what \<open>remove_connection\<close>
  leaves, in which the participant is not connected. The participant rows left are the
  old ones, without the row of the participant unless \<open>remove_participant\<close> raises, and
  without the rows of the room outside the remaining live set unless
  \<open>cleanup_inactive_participants\<close> raises; so when the first does not raise no row
  with the participant's id is left, and when the second does not raise every row left
  for the room is that of another, still connected participant. The rooms table is what
  \<open>unlock_room\<close> leaves, and the room is \<open>active\<close>, exactly when the remaining live
  count is below 2, the room was \<open>locked\<close>, and neither the lookup of the room nor the
  unlock update raises; otherwise the rooms table is unchanged.
\<close>

theorem disconnect_cleans_up:
  assumes sess: "s_room_id sess = Some rid" "rid \<noteq> []" "s_participant_id sess = Some pid" "pid \<noteq> 0"
    and conn: "map_of (sessions cm) sid = Some (rid, pid, rl)"
  shows "case on_disconnect sess sid f cm d of
           (cm', d') \<Rightarrow>
             (let unlocks = (get_connection_count rid cm' < 2 \<and> \<not> f GetRoom \<and> \<not> f UnlockRoom
                            \<and> map_option status (Room_get_room rid False d) = Some Locked)
              in cm' = snd (remove_connection sid cm)
               \<and> \<not> is_participant_connected rid pid cm'
               \<and> participants d' =
                   filter (\<lambda>p. (f RemoveParticipant \<or> p_id p \<noteq> pid)
                              \<and> (f CleanupParticipants
                                 \<or> (p_room_id p = rid \<longrightarrow> is_participant_connected rid (p_id p) cm')))
                     (participants d)
               \<and> (\<not> f RemoveParticipant \<longrightarrow> (\<forall>p\<in>set (participants d'). p_id p \<noteq> pid))
               \<and> (\<not> f CleanupParticipants \<longrightarrow>
                    (\<forall>p\<in>set (participants d'). p_room_id p = rid \<longrightarrow>
                        p_id p \<noteq> pid \<and> is_participant_connected rid (p_id p) cm'))
               \<and> rooms d' = (if unlocks then rooms (snd (Room_unlock_room rid False d)) else rooms d)
               \<and> (unlocks \<longrightarrow> map_option status (Room_get_room rid False d') = Some Active))"
proof -
  define cm1 where "cm1 = snd (remove_connection sid cm)"
  define ids where "ids = map fst (get_room_connections rid cm1)"
  define d2 where "d2 = snd (Participant_cleanup_inactive_participants rid ids
                               (f CleanupParticipants)
                               (snd (Participant_remove_participant pid (f RemoveParticipant) d)))"
  define d3 where "d3 = (if length ids < 2 then
               (case Room_get_room rid (f GetRoom) d2 of
                  None \<Rightarrow> d2
                | Some r \<Rightarrow> if status r = Locked then snd (Room_unlock_room rid (f UnlockRoom) d2)
                            else d2)
             else d2)"
  define unlocks where "unlocks \<longleftrightarrow> get_connection_count rid cm1 < 2 \<and> \<not> f GetRoom
                    \<and> \<not> f UnlockRoom
                    \<and> map_option status (Room_get_room rid False d) = Some Locked"
  have run: "on_disconnect sess sid f cm d = (cm1, d3)"
    unfolding on_disconnect_eq [OF sess] Let_def d3_def d2_def ids_def cm1_def by (rule refl)
  have nc: "\<not> is_participant_connected rid pid cm1"
    using remove_connection_registered [OF conn]
    by (simp add: is_participant_connected_def cm1_def)
  have ps2: "participants d2 =
        filter (\<lambda>p. (f RemoveParticipant \<or> p_id p \<noteq> pid)
                   \<and> (f CleanupParticipants
                      \<or> (p_room_id p = rid \<longrightarrow> is_participant_connected rid (p_id p) cm1)))
          (participants d)"
    unfolding d2_def ids_def by (rule disconnect_rows)
  have ps3: "participants d3 = participants d2"
    by (simp add: d3_def unlock_room_other_tables split: option.splits)
  have rooms2: "rooms d2 = rooms d"
    unfolding d2_def by (rule disconnect_rooms)
  have g2: "Room_get_room rid g d2 = Room_get_room rid g d" for g
    by (rule get_room_rooms [OF rooms2])
  have len: "length ids = get_connection_count rid cm1"
    by (simp add: ids_def get_connection_count_def get_room_connections_def)
  have yes: "rooms d3 = rooms (snd (Room_unlock_room rid False d))
             \<and> map_option status (Room_get_room rid False d3) = Some Active" if u: "unlocks"
  proof -
    from u obtain r where r: "Room_get_room rid False d = Some r" "status r = Locked"
      by (auto simp: unlocks_def)
    from u r have e: "d3 = snd (Room_unlock_room rid False d2)"
      by (simp add: d3_def len g2 unlocks_def)
    have "rooms d3 = rooms (snd (Room_unlock_room rid False d))"
      unfolding e by (rule unlock_room_rooms [OF rooms2])
    moreover have "map_option status (Room_get_room rid False d3) = Some Active"
      unfolding e by (rule unlock_room_status [where g = False and room = r])
        (simp_all add: g2 r)
    ultimately show ?thesis by simp
  qed
  have no: "rooms d3 = rooms d" if u: "\<not> unlocks"
  proof (cases "length ids < 2")
    case False
    then show ?thesis by (simp add: d3_def rooms2)
  next
    case lt: True
    show ?thesis
    proof (cases "Room_get_room rid (f GetRoom) d")
      case None
      with lt show ?thesis by (simp add: d3_def g2 rooms2)
    next
      case (Some r)
      then have fg: "\<not> f GetRoom" and r: "Room_get_room rid False d = Some r"
        by (auto simp: Room_get_room_def split: if_splits)
      show ?thesis
      proof (cases "status r = Locked")
        case False
        with lt Some show ?thesis by (simp add: d3_def g2 rooms2)
      next
        case True
        with u lt fg r have "f UnlockRoom" by (simp add: len unlocks_def)
        with lt Some True show ?thesis
          by (simp add: d3_def g2 rooms2 unlock_room_other_tables)
      qed
    qed
  qed
  have ps: "participants d3 =
        filter (\<lambda>p. (f RemoveParticipant \<or> p_id p \<noteq> pid)
                   \<and> (f CleanupParticipants
                      \<or> (p_room_id p = rid \<longrightarrow> is_participant_connected rid (p_id p) cm1)))
          (participants d)"
    by (simp only: ps3 ps2)
  have rs: "rooms d3 = (if unlocks then rooms (snd (Room_unlock_room rid False d)) else rooms d)"
    using yes no by (cases unlocks) simp_all
  have "cm1 = snd (remove_connection sid cm)
      \<and> \<not> is_participant_connected rid pid cm1
      \<and> participants d3 =
          filter (\<lambda>p. (f RemoveParticipant \<or> p_id p \<noteq> pid)
                     \<and> (f CleanupParticipants
                        \<or> (p_room_id p = rid \<longrightarrow> is_participant_connected rid (p_id p) cm1)))
            (participants d)
      \<and> (\<not> f RemoveParticipant \<longrightarrow> (\<forall>p\<in>set (participants d3). p_id p \<noteq> pid))
      \<and> (\<not> f CleanupParticipants \<longrightarrow>
           (\<forall>p\<in>set (participants d3). p_room_id p = rid \<longrightarrow>
               p_id p \<noteq> pid \<and> is_participant_connected rid (p_id p) cm1))
      \<and> rooms d3 = (if unlocks then rooms (snd (Room_unlock_room rid False d)) else rooms d)
      \<and> (unlocks \<longrightarrow> map_option status (Room_get_room rid False d3) = Some Active)"
  proof (intro conjI)
    show "cm1 = snd (remove_connection sid cm)" by (rule cm1_def)
    show "\<not> is_participant_connected rid pid cm1" by (rule nc)
    show "participants d3 =
          filter (\<lambda>p. (f RemoveParticipant \<or> p_id p \<noteq> pid)
                     \<and> (f CleanupParticipants
                        \<or> (p_room_id p = rid \<longrightarrow> is_participant_connected rid (p_id p) cm1)))
            (participants d)" by (rule ps)
    show "\<not> f RemoveParticipant \<longrightarrow> (\<forall>p\<in>set (participants d3). p_id p \<noteq> pid)"
      unfolding ps by simp
    show "\<not> f CleanupParticipants \<longrightarrow>
           (\<forall>p\<in>set (participants d3). p_room_id p = rid \<longrightarrow>
               p_id p \<noteq> pid \<and> is_participant_connected rid (p_id p) cm1)"
      unfolding ps using nc by auto
    show "rooms d3 = (if unlocks then rooms (snd (Room_unlock_room rid False d)) else rooms d)"
      by (rule rs)
    show "unlocks \<longrightarrow> map_option status (Room_get_room rid False d3) = Some Active"
      using yes by blast
  qed
  then show ?thesis
    unfolding run prod.case Let_def unlocks_def .
qed

theorem disconnect_cleans_up_witness:
  "\<not> is_participant_connected ''Ab12'' 2
       (fst (on_disconnect example_guest_session ''sid-g'' no_faults example_cm
               example_locked_db))
   \<and> participants (snd (on_disconnect example_guest_session ''sid-g'' no_faults example_cm
               example_locked_db)) = [example_host]
   \<and> map_option status (Room_get_room ''Ab12'' False
        (snd (on_disconnect example_guest_session ''sid-g'' no_faults example_cm
               example_locked_db))) = Some Active"
proof -
  obtain cm' d' where X: "on_disconnect example_guest_session ''sid-g'' no_faults example_cm
               example_locked_db = (cm', d')"
    by (cases "on_disconnect example_guest_session ''sid-g'' no_faults example_cm
               example_locked_db")
  have conn: "map_of (sessions example_cm) ''sid-g'' = Some (''Ab12'', 2, Guest)"
    by (simp add: example_cm_eq)
  note t = disconnect_cleans_up [where f = no_faults and d = example_locked_db,
      OF example_guest_session_ok conn, unfolded X prod.case Let_def]
  note c1 = t [THEN conjunct1]
  note c2 = t [THEN conjunct2, THEN conjunct1]
  note c3 = t [THEN conjunct2, THEN conjunct2, THEN conjunct1]
  note c7 = t [THEN conjunct2, THEN conjunct2, THEN conjunct2, THEN conjunct2,
      THEN conjunct2, THEN conjunct2]
  have cm: "cm' = \<lparr>connections = [(''Ab12'', [(Suc 0, ''sid-h'')])],
                   sessions = [(''sid-h'', (''Ab12'', Suc 0, Host))]\<rparr>"
    unfolding c1 by (simp add: example_remove_connection)
  have p: "participants d' = [example_host]"
    unfolding c3 cm
    by (simp add: no_faults_applied is_participant_connected_def dict_get_def
        example_locked_rows)
  have u: "get_connection_count ''Ab12'' cm' < 2 \<and> \<not> no_faults GetRoom
           \<and> \<not> no_faults UnlockRoom
           \<and> map_option status (Room_get_room ''Ab12'' False example_locked_db) = Some Locked"
    unfolding cm
    by (simp add: get_connection_count_def dict_get_def no_faults_applied
        example_locked_lookup(1) example_locked_room_def)
  have s: "map_option status (Room_get_room ''Ab12'' False d') = Some Active"
    by (rule c7 [THEN mp, OF u])
  show ?thesis
    unfolding X fst_conv snd_conv by (intro conjI c2 p s)
qed

subsection \<open>Archival\<close>

text \<open>
  Claim C5, as stated, fails in its last part: a room whose archival failed stays
  \<open>closed\<close>, and the sweep selects only \<open>active\<close> and \<open>locked\<close> rooms. Here the
  upload of the first sweep fails; the second sweep, in which nothing fails, leaves the
  room \<open>closed\<close>, without archive key, and the bucket empty.
\<close>

theorem failed_archive_not_retried_counterexample:
  "process_expired_rooms toy_aead (replicate 32 1) 90000 ''20240102_010000'' False
     no_room_faults (upload_always S3Error) example_active_db []
   = (example_unarchived_db, [])
   \<and> process_expired_rooms toy_aead (replicate 32 1) 90060 ''20240102_010100'' False
       no_room_faults (upload_always Stored) example_unarchived_db []
     = (example_unarchived_db, [])
   \<and> map status (rooms example_unarchived_db) = [Closed]
   \<and> map archive_key (rooms example_unarchived_db) = [None]"
  by (intro conjI example_first_sweep example_second_sweep)
     (simp_all add: example_unarchived_db_def example_closed_room_def example_room_def)


text \<open>
  Claim C5, amended. During the archival of a closed room whose wrapped key unwraps, a
  message that fails to decrypt never aborts the archive: the stored document has one
  entry per fetched message, in place; the entry of a failing message has the text
  \<open>[DECRYPTION_FAILED]\<close> and an error field, every other entry has the decrypted text
  and no error field. When the upload and the status update succeed the room becomes
  \<open>archived\<close>; when the upload or the status update fails, the call returns
  \<open>False\<close>, the database is unchanged and the room's status remains \<open>closed\<close>.
\<close>

theorem archive_survives_decryption_failures:
  assumes room: "Room_get_room rid (f GetRoom) d = Some room" "status room = Closed"
    and key: "select_room_key rid (f SelectRoomKey) d = Some enc" "enc \<noteq> []"
      "decrypt_room_key A mk enc = Inr rk"
  shows "case ArchiveService_archive_room A mk rid now stamp f outcome d st of
           (ok, d', st') \<Rightarrow>
             (outcome = Stored \<longrightarrow>
                (\<exists>doc. get_archive (archive_object_key rid stamp) st' = Some doc
                   \<and> ad_messages doc =
                       map (archive_message A rk)
                         (Message_get_room_messages rid 10000 (f GetRoomMessages) d)))
           \<and> (outcome = Stored \<and> \<not> f ArchiveRoom \<longrightarrow>
                ok \<and> map_option status (Room_get_room rid False d') = Some Archived)
           \<and> (outcome \<noteq> Stored \<or> f ArchiveRoom \<longrightarrow>
                \<not> ok \<and> d' = d
              \<and> map_option status (Room_get_room rid (f GetRoom) d') = Some Closed)
           \<and> (\<forall>msg.
                (case decrypt_message A rk (m_body_ct msg) (m_nonce msg) (m_tag msg) of
                   Inr text \<Rightarrow> am_message (archive_message A rk msg) = text
                              \<and> am_error (archive_message A rk msg) = None
                 | Inl e \<Rightarrow> am_message (archive_message A rk msg) = DECRYPTION_FAILED
                           \<and> am_error (archive_message A rk msg) = Some e)
                \<and> am_id (archive_message A rk msg) = m_id msg)"
proof -
  have fail: "Room_archive_room rid k True d = (False, d)" for k
    by (simp add: Room_archive_room_def)
  note ok = archive_room_status [OF room]
  have msgs: "\<forall>msg.
      (case decrypt_message A rk (m_body_ct msg) (m_nonce msg) (m_tag msg) of
         Inr text \<Rightarrow> am_message (archive_message A rk msg) = text
                    \<and> am_error (archive_message A rk msg) = None
       | Inl e \<Rightarrow> am_message (archive_message A rk msg) = DECRYPTION_FAILED
                 \<and> am_error (archive_message A rk msg) = Some e)
      \<and> am_id (archive_message A rk msg) = m_id msg"
    using archive_message_cases by blast
  show ?thesis
  proof (cases "outcome = Stored")
    case False
    with room msgs show ?thesis
      by (simp add: archive_room_eq [where f = f, OF room(1) key] Let_def)
  next
    case True
    show ?thesis
    proof (cases "f ArchiveRoom")
      case True
      with \<open>outcome = Stored\<close> room msgs show ?thesis
        by (simp add: archive_room_eq [where f = f, OF room(1) key] Let_def fail get_archive_def
            update_conv')
    next
      case False
      with \<open>outcome = Stored\<close> room msgs ok(2) [of "archive_object_key rid stamp"]
      show ?thesis
        by (simp add: archive_room_eq [where f = f, OF room(1) key] Let_def get_archive_def
            update_conv' ok(1) [of "archive_object_key rid stamp"])
    qed
  qed
qed


theorem archive_survives_decryption_failures_witness:
  "fst (ArchiveService_archive_room toy_aead (replicate 32 1) ''Ab12'' 90010
          ''20240102_010010'' no_faults Stored example_closed_db [])
   \<and> map_option (map am_message \<circ> ad_messages)
        (get_archive (archive_object_key ''Ab12'' ''20240102_010010'')
           (snd (snd (ArchiveService_archive_room toy_aead (replicate 32 1) ''Ab12'' 90010
              ''20240102_010010'' no_faults Stored example_closed_db []))))
       = Some [example_hi, DECRYPTION_FAILED]
   \<and> map status (rooms (fst (snd (ArchiveService_archive_room toy_aead (replicate 32 1)
        ''Ab12'' 90010 ''20240102_010010'' no_faults Stored example_closed_db []))))
       = [Archived]"
proof -
  have g: "Room_get_room ''Ab12'' (no_faults GetRoom) example_closed_db
             = Some example_closed_room"
    "status example_closed_room = Closed"
    by (simp_all add: Room_get_room_def no_faults_def example_closed_db_def
        example_closed_room_def example_room_def)
  have k: "select_room_key ''Ab12'' (no_faults SelectRoomKey) example_closed_db
             = Some example_wrapped_key"
    by (simp add: no_faults_def example_closed_key)
  have rs: "map status (rooms (snd (Room_archive_room ''Ab12'' key False example_closed_db)))
              = [Archived]" for key
    by (simp add: Room_archive_room_def Let_def sql_update_def example_closed_db_def
        example_closed_room_def example_room_def)
  from archive_survives_decryption_failures [where f = no_faults and A = toy_aead
      and now = 90010 and stamp = "''20240102_010010''" and outcome = Stored and st = "[]",
      OF g k example_closed_key(2,3)]
  show ?thesis
    by (auto simp: no_faults_applied example_closed_rows example_archive_message split_beta
        archive_room_eq [where f = no_faults, OF g(1) k example_closed_key(2,3)] Let_def rs)
qed


text \<open>
  Claim C6 does not hold of \<open>archive_room\<close>, whose docstring is
  \<open>Archive a room's complete conversation\<close>. It reads the messages with
  \<open>limit=10000\<close>: a closed room with 10001 persisted messages is archived,
  successfully, with 10000. And
  \<open>get_room_messages\<close> answers the empty list when its query raises: a closed room with
  2 persisted messages is then archived, successfully, with no message at all, and its
  status becomes \<open>archived\<close>.
\<close>

theorem archive_incomplete:
  "Message_count_room_messages ''Ab12'' False example_big_db = 10001
   \<and> fst (ArchiveService_archive_room toy_aead (replicate 32 1) ''Ab12'' 90010
          ''20240102_010010'' no_faults Stored example_big_db [])
   \<and> map_option ad_message_count
        (get_archive (archive_object_key ''Ab12'' ''20240102_010010'')
           (snd (snd (ArchiveService_archive_room toy_aead (replicate 32 1) ''Ab12'' 90010
              ''20240102_010010'' no_faults Stored example_big_db []))))
       = Some 10000
   \<and> Message_count_room_messages ''Ab12'' False example_closed_db = 2
   \<and> fst (ArchiveService_archive_room toy_aead (replicate 32 1) ''Ab12'' 90010
          ''20240102_010010'' (no_faults(GetRoomMessages := True)) Stored example_closed_db [])
   \<and> map_option ad_messages
        (get_archive (archive_object_key ''Ab12'' ''20240102_010010'')
           (snd (snd (ArchiveService_archive_room toy_aead (replicate 32 1) ''Ab12'' 90010
              ''20240102_010010'' (no_faults(GetRoomMessages := True)) Stored
              example_closed_db []))))
       = Some []
   \<and> map status (rooms (fst (snd (ArchiveService_archive_room toy_aead (replicate 32 1) ''Ab12''
              90010 ''20240102_010010'' (no_faults(GetRoomMessages := True)) Stored
              example_closed_db [])))) = [Archived]"
  by (intro conjI example_big_count example_big_archive example_read_raises_archive)

subsection \<open>Creating a room\<close>

text \<open>
  Claim C4 describes what the route is written to do; the code does not do it. The route
  passes the keyword \<open>room_id\<close> to \<open>Room.create_room\<close>, which takes no parameter: the
  call raises \<open>TypeError\<close>, the route answers 500 and no room is created, whether or not
  the body names an id.
\<close>

theorem create_room_route_fails:
  "create_room_route (Some ''Ab12'') ''dev-h'' example_draws never_raises 100 empty_db
     = ((500, Error ''Internal server error''), empty_db)
   \<and> create_room_route None ''dev-h'' example_draws never_raises 100 empty_db
     = ((500, Error ''Internal server error''), empty_db)"
  by (simp add: create_room_route_def call_Room_create_room_def Room_create_room_params_def)

end
